theory Spec2Isabelle
  imports Complex_Main "HOL-Library.Sublist"
begin

section \<open>Birth-statistics dashboard: the decode / filter / aggregate pipeline\<close>

text \<open>
  A shallow embedding of \<^verbatim>\<open>streamlit_app.py\<close>. The program keeps its data in pandas
  data frames; here a data frame is a list of rows (in index order) and a column is the
  list of one field of every row. A Python \<^verbatim>\<open>str\<close> is the list of its Unicode code
  points, so the Korean labels of the source are written as code-point lists.
  The finite numbers of a numeric column (\<^verbatim>\<open>float64\<close>) are modelled as rationals;
  \<^verbatim>\<open>NaN\<close> and \<^verbatim>\<open>pd.NA\<close> are the absent value \<open>None\<close>. The cells of a frame hold
  finite numbers; the infinities are modelled where the integer normalizer reads a column.
\<close>

subsection \<open>Values\<close>

type_synonym ustring = "nat list"

text \<open>The exceptions the modelled lines can raise.\<close>

datatype error = TypeError | KeyError | OverflowError

text \<open>
  One cell of a column as loaded from the CSV file: an empty cell (\<^verbatim>\<open>NaN\<close>), a finite
  number, or
  a string (a column that holds any non-numeric text is loaded with dtype \<^verbatim>\<open>object\<close>).
\<close>

datatype cell = Missing | Num rat | Text ustring

text \<open>
  \<^verbatim>\<open>pd.to_numeric(s, errors="coerce")\<close> on one cell. How pandas reads a string as a
  number is library code; it is the parameter \<open>pn\<close> (\<open>None\<close> when the string does not
  parse and is coerced to \<^verbatim>\<open>NaN\<close>).
\<close>

fun to_numeric :: "(ustring \<Rightarrow> rat option) \<Rightarrow> cell \<Rightarrow> rat option" where
  "to_numeric pn Missing = None"
| "to_numeric pn (Num q) = Some q"
| "to_numeric pn (Text s) = pn s"

text \<open>The cell stored back by \<^verbatim>\<open>_df[c] = pd.to_numeric(_df[c], errors="coerce")\<close>.\<close>

definition coerce :: "(ustring \<Rightarrow> rat option) \<Rightarrow> cell \<Rightarrow> cell" where
  "coerce pn c = (case to_numeric pn c of None \<Rightarrow> Missing | Some q \<Rightarrow> Num q)"

text \<open>
  A value of a numeric column other than \<^verbatim>\<open>NaN\<close>: a finite number or an infinity.
  \<^verbatim>\<open>pd.to_numeric\<close> reads the text \<^verbatim>\<open>inf\<close> as an infinity. The cells of this model
  hold finite numbers, so \<open>read_cell\<close>, the reading of one cell as a column value, never
  yields an infinity; the normalizer itself is modelled for every column value.
\<close>

datatype number = Finite rat | PosInf | NegInf

definition read_cell :: "(ustring \<Rightarrow> rat option) \<Rightarrow> cell \<Rightarrow> number option" where
  "read_cell pn c = map_option Finite (to_numeric pn c)"

text \<open>
  \<^verbatim>\<open>.astype("Int64")\<close> on a numeric column. pandas first converts the largest value of
  the column with \<^verbatim>\<open>int()\<close>, which raises \<^verbatim>\<open>OverflowError\<close> when that value is an
  infinity. It then casts the values to \<^verbatim>\<open>int64\<close>, compares the cast values with the
  originals and raises \<^verbatim>\<open>TypeError\<close> ("cannot safely cast non-equivalent float64 to
  int64") unless all of them are equal; \<^verbatim>\<open>NaN\<close> becomes \<^verbatim>\<open>pd.NA\<close>. The largest
  value is \<open>PosInf\<close> when \<open>PosInf\<close> occurs, and \<open>NegInf\<close> when nothing else occurs.
\<close>

definition int64_exact :: "rat \<Rightarrow> bool" where
  "int64_exact q \<longleftrightarrow> of_int \<lfloor>q\<rfloor> = q \<and> - (2 ^ 63) \<le> \<lfloor>q\<rfloor> \<and> \<lfloor>q\<rfloor> < 2 ^ 63"

definition exact_value :: "number option \<Rightarrow> bool" where
  "exact_value v =
     (case v of None \<Rightarrow> True | Some (Finite q) \<Rightarrow> int64_exact q | Some _ \<Rightarrow> False)"

text \<open>The integer a column value is cast to (an infinity never reaches the cast).\<close>

fun int_cast :: "number \<Rightarrow> int" where
  "int_cast (Finite q) = \<lfloor>q\<rfloor>"
| "int_cast PosInf = 0"
| "int_cast NegInf = 0"

definition max_is_infinite :: "number option list \<Rightarrow> bool" where
  "max_is_infinite x =
     (let vs = List.map_filter (\<lambda>v. v) x
      in vs \<noteq> [] \<and> (PosInf \<in> set vs \<or> list_all (\<lambda>v. v = NegInf) vs))"

definition astype_Int64 :: "number option list \<Rightarrow> error + int option list" where
  "astype_Int64 x =
     (if max_is_infinite x then Inl OverflowError
      else if list_all exact_value x then Inr (map (map_option int_cast) x)
      else Inl TypeError)"

text \<open>
  \<^verbatim>\<open>
  def to_int_series(s, dropna=True):
      x = pd.to_numeric(s, errors="coerce").astype("Int64")
      return x.dropna().astype(int) if dropna else x
  \<close>
  What \<^verbatim>\<open>pd.to_numeric(..., errors="coerce")\<close> makes of one raw value is library code;
  it is the parameter \<open>rd\<close> (\<open>None\<close> when the value is missing or does not parse). With
  \<^verbatim>\<open>dropna\<close> the result has no missing entry (every element is \<open>Some\<close>).
\<close>

definition to_int_series ::
  "('c \<Rightarrow> number option) \<Rightarrow> 'c list \<Rightarrow> bool \<Rightarrow> error + int option list" where
  "to_int_series rd s dropna =
     (case astype_Int64 (map rd s) of
        Inl e \<Rightarrow> Inl e
      | Inr x \<Rightarrow> Inr (if dropna then filter (\<lambda>v. v \<noteq> None) x else x))"

subsection \<open>Code dictionaries\<close>

text \<open>
  A Python \<^verbatim>\<open>dict\<close> built from a sequence of key/value pairs: a later pair with the same
  key overwrites an earlier one.
\<close>

definition py_dict :: "('k \<times> 'v) list \<Rightarrow> 'k \<rightharpoonup> 'v" where
  "py_dict kvs = map_of (rev kvs)"

text \<open>\<^verbatim>\<open>{v: k for k, v in d.items()}\<close>\<close>

definition reversed_dict :: "('k \<times> 'v) list \<Rightarrow> 'v \<rightharpoonup> 'k" where
  "reversed_dict items = py_dict (map (\<lambda>(k, v). (v, k)) items)"

text \<open>
  \<^verbatim>\<open>REGION_MAP\<close>: Seoul, Busan, Daegu, Incheon, Gwangju, Daejeon, Ulsan, Sejong,
  Gyeonggi, Gangwon, Chungbuk, Chungnam, Jeonbuk, Jeonnam, Gyeongbuk, Gyeongnam, Jeju.
\<close>

definition REGION_MAP_items :: "(int \<times> ustring) list" where
  "REGION_MAP_items =
    [(11, [0xC11C, 0xC6B8, 0xD2B9, 0xBCC4, 0xC2DC]),
     (21, [0xBD80, 0xC0B0, 0xAD11, 0xC5ED, 0xC2DC]),
     (22, [0xB300, 0xAD6C, 0xAD11, 0xC5ED, 0xC2DC]),
     (23, [0xC778, 0xCC9C, 0xAD11, 0xC5ED, 0xC2DC]),
     (24, [0xAD11, 0xC8FC, 0xAD11, 0xC5ED, 0xC2DC]),
     (25, [0xB300, 0xC804, 0xAD11, 0xC5ED, 0xC2DC]),
     (26, [0xC6B8, 0xC0B0, 0xAD11, 0xC5ED, 0xC2DC]),
     (29, [0xC138, 0xC885, 0xD2B9, 0xBCC4, 0xC790, 0xCE58, 0xC2DC]),
     (31, [0xACBD, 0xAE30, 0xB3C4]),
     (32, [0xAC15, 0xC6D0, 0xB3C4]),
     (33, [0xCDA9, 0xCCAD, 0xBD81, 0xB3C4]),
     (34, [0xCDA9, 0xCCAD, 0xB0A8, 0xB3C4]),
     (35, [0xC804, 0xB77C, 0xBD81, 0xB3C4]),
     (36, [0xC804, 0xB77C, 0xB0A8, 0xB3C4]),
     (37, [0xACBD, 0xC0C1, 0xBD81, 0xB3C4]),
     (38, [0xACBD, 0xC0C1, 0xB0A8, 0xB3C4]),
     (39, [0xC81C, 0xC8FC, 0xD2B9, 0xBCC4, 0xC790, 0xCE58, 0xB3C4])]"

definition REGION_MAP :: "int \<rightharpoonup> ustring" where
  "REGION_MAP = py_dict REGION_MAP_items"

definition REGION_MAP_REV :: "ustring \<rightharpoonup> int" where
  "REGION_MAP_REV = reversed_dict REGION_MAP_items"

text \<open>\<^verbatim>\<open>AGE_MAP\<close>: the five-year age brackets, 99 is "unknown".\<close>

definition AGE_MAP_items :: "(int \<times> ustring) list" where
  "AGE_MAP_items =
    [(1, [0x30, 0x7E, 0x31, 0x34, 0xC138]),
     (2, [0x31, 0x35, 0x7E, 0x31, 0x39, 0xC138]),
     (3, [0x32, 0x30, 0x7E, 0x32, 0x34, 0xC138]),
     (4, [0x32, 0x35, 0x7E, 0x32, 0x39, 0xC138]),
     (5, [0x33, 0x30, 0x7E, 0x33, 0x34, 0xC138]),
     (6, [0x33, 0x35, 0x7E, 0x33, 0x39, 0xC138]),
     (7, [0x34, 0x30, 0x7E, 0x34, 0x34, 0xC138]),
     (8, [0x34, 0x35, 0x7E, 0x34, 0x39, 0xC138]),
     (9, [0x35, 0x30, 0xC138, 0x20, 0xC774, 0xC0C1]),
     (99, [0xBBF8, 0xC0C1])]"

text \<open>\<^verbatim>\<open>MULTI_ORDER_MAP\<close>: first, second, third, fourth, unknown.\<close>

definition MULTI_ORDER_MAP_items :: "(int \<times> ustring) list" where
  "MULTI_ORDER_MAP_items =
    [(1, [0xCCAB, 0xC9F8]), (2, [0xB458, 0xC9F8]), (3, [0xC14B, 0xC9F8]),
     (4, [0xB137, 0xC9F8]), (9, [0xBBF8, 0xC0C1])]"

text \<open>\<^verbatim>\<open>MULTI_TYPE_MAP\<close>: single, twin, triplet or more, unknown.\<close>

definition MULTI_TYPE_MAP_items :: "(int \<times> ustring) list" where
  "MULTI_TYPE_MAP_items =
    [(1, [0xB2E8, 0xD0DC, 0xC544]), (2, [0xC30D, 0xD0DC, 0xC544]),
     (3, [0xC0BC, 0xD0DC, 0xC544, 0xC774, 0xC0C1]), (9, [0xBBF8, 0xC0C1])]"

text \<open>\<^verbatim>\<open>MOTHER_TOTAL_CHILD_MAP\<close>: one child up to eight or more, 99 is "unknown".\<close>

definition MOTHER_TOTAL_CHILD_MAP_items :: "(int \<times> ustring) list" where
  "MOTHER_TOTAL_CHILD_MAP_items =
    [(1, [0x31, 0xBA85]), (2, [0x32, 0xBA85]), (3, [0x33, 0xBA85]), (4, [0x34, 0xBA85]),
     (5, [0x35, 0xBA85]), (6, [0x36, 0xBA85]), (7, [0x37, 0xBA85]),
     (8, [0x38, 0xBA85, 0x20, 0xC774, 0xC0C1]), (99, [0xBBF8, 0xC0C1])]"

text \<open>\<^verbatim>\<open>NATIONALITY_MAP\<close>: Korean by birth, naturalised Korean, foreign, unknown.\<close>

definition NATIONALITY_MAP_items :: "(int \<times> ustring) list" where
  "NATIONALITY_MAP_items =
    [(1, [0xCD9C, 0xC0DD, 0xD55C, 0xAD6D, 0xC778]),
     (2, [0xADC0, 0xD654, 0xD55C, 0xAD6D, 0xC778]),
     (3, [0xC678, 0xAD6D]), (9, [0xBBF8, 0xC0C1])]"

text \<open>The two dictionaries local to the sidebar: \<^verbatim>\<open>gender_map\<close> and \<^verbatim>\<open>marital_map\<close>.\<close>

definition gender_map_items :: "(int \<times> ustring) list" where
  "gender_map_items = [(1, [0xB0A8]), (2, [0xC5EC])]"

definition marital_map_items :: "(int \<times> ustring) list" where
  "marital_map_items =
    [(1, [0xD63C, 0xC778, 0x20, 0xC911, 0x20, 0xCD9C, 0xC0DD]),
     (2, [0xD63C, 0xC778, 0x20, 0xC678, 0x20, 0xCD9C, 0xC0DD])]"

text \<open>The selectbox entry "all" (\<^verbatim>\<open>"\<close>jeonche\<^verbatim>\<open>"\<close>) that switches a predicate off.\<close>

definition ALL_label :: ustring where
  "ALL_label = [0xC804, 0xCCB4]"

subsection \<open>Label decoding\<close>

text \<open>
  The code columns that lines 192 to 204 decode, with the dictionary each one is mapped
  through.
\<close>

datatype field =
    Region | FatherAge | MotherAge | MultiOrder | MultiType | MotherTotalChild
  | FatherNationality | MotherNationality

fun dict_items :: "field \<Rightarrow> (int \<times> ustring) list" where
  "dict_items Region = REGION_MAP_items"
| "dict_items FatherAge = AGE_MAP_items"
| "dict_items MotherAge = AGE_MAP_items"
| "dict_items MultiOrder = MULTI_ORDER_MAP_items"
| "dict_items MultiType = MULTI_TYPE_MAP_items"
| "dict_items MotherTotalChild = MOTHER_TOTAL_CHILD_MAP_items"
| "dict_items FatherNationality = NATIONALITY_MAP_items"
| "dict_items MotherNationality = NATIONALITY_MAP_items"

text \<open>
  \<^verbatim>\<open>Series.map(d)\<close> on one entry of an \<^verbatim>\<open>Int64\<close> column: the label of the code, and
  \<^verbatim>\<open>NaN\<close> for \<^verbatim>\<open>pd.NA\<close> and for a code that is not a key of the dictionary.
\<close>

definition decode :: "field \<Rightarrow> int option \<Rightarrow> ustring option" where
  "decode f code = (case code of None \<Rightarrow> None | Some c \<Rightarrow> py_dict (dict_items f) c)"

text \<open>\<^verbatim>\<open>to_int_series(_df[col], dropna=False).map(D)\<close>: a whole label column.\<close>

definition label_column ::
  "(ustring \<Rightarrow> rat option) \<Rightarrow> field \<Rightarrow> cell list \<Rightarrow> error + ustring option list" where
  "label_column pn f s =
     (case to_int_series (read_cell pn) s False of
        Inl e \<Rightarrow> Inl e
      | Inr x \<Rightarrow> Inr (map (decode f) x))"

subsection \<open>Rows, data frames and the filter specification\<close>

text \<open>
  The columns the sidebar filter reads, in the order the filter uses them: the year, the
  region code of the child's address, the gender code, the month of birth, the
  multiple-birth code, the born-in-or-out-of-wedlock code, the birth weight and the
  duration of the parents' cohabitation. Any other column is carried along unchanged in
  the extension part of the record.
\<close>

record row =
  year_col :: cell
  region_code :: cell
  gender_code :: cell
  birth_month :: cell
  multiple_code :: cell
  marital_code :: cell
  birth_weight :: cell
  parental_cohab :: cell

text \<open>
  A data frame: its rows in index order, and whether it has the optional cohabitation
  column (when it has not, the field \<open>parental_cohab\<close> of its rows is never read).
\<close>

record 'r frame =
  has_cohab :: bool
  rows :: "'r list"

text \<open>
  The values of the sidebar widgets. \<open>selected_year\<close> is \<open>None\<close> for the entry "all" and
  the chosen year otherwise; \<open>selected_wt\<close> is the pair of slider ends.
\<close>

record filter_spec =
  selected_year :: "int option"
  selected_regions_name :: "ustring list"
  selected_genders :: "ustring list"
  selected_months :: "int list"
  selected_multiple :: ustring
  selected_marital :: ustring
  selected_wt :: "rat \<times> rat"
  exclude_na :: bool

subsection \<open>The filter pipeline (lines 154 to 189)\<close>

definition and_then :: "error + 'a \<Rightarrow> ('a \<Rightarrow> error + 'b) \<Rightarrow> error + 'b" where
  "and_then m f = (case m of Inl e \<Rightarrow> Inl e | Inr x \<Rightarrow> f x)"

text \<open>\<^verbatim>\<open>_df[mask]\<close>: the rows whose mask entry is true (\<^verbatim>\<open>pd.NA\<close> counts as false).\<close>

definition boolean_index :: "'r list \<Rightarrow> bool list \<Rightarrow> 'r list" where
  "boolean_index df msk = map fst (filter snd (zip df msk))"

text \<open>\<^verbatim>\<open>x == c\<close> and \<^verbatim>\<open>x.isin(values)\<close> on one entry of an \<^verbatim>\<open>Int64\<close> column.\<close>

definition eq_code :: "int \<Rightarrow> int option \<Rightarrow> bool" where
  "eq_code c v \<longleftrightarrow> v = Some c"

definition isin :: "int list \<Rightarrow> int option \<Rightarrow> bool" where
  "isin values v = (case v of None \<Rightarrow> False | Some c \<Rightarrow> c \<in> set values)"

text \<open>\<^verbatim>\<open>d[k]\<close> and \<^verbatim>\<open>[d[k] for k in ks]\<close>: a key that is absent raises \<^verbatim>\<open>KeyError\<close>.\<close>

definition subscript :: "('k \<rightharpoonup> 'v) \<Rightarrow> 'k \<Rightarrow> error + 'v" where
  "subscript d k = (case d k of None \<Rightarrow> Inl KeyError | Some v \<Rightarrow> Inr v)"

fun subscript_all :: "('k \<rightharpoonup> 'v) \<Rightarrow> 'k list \<Rightarrow> error + 'v list" where
  "subscript_all d [] = Inr []"
| "subscript_all d (k # ks) =
     (case d k of
        None \<Rightarrow> Inl KeyError
      | Some v \<Rightarrow> (case subscript_all d ks of Inl e \<Rightarrow> Inl e | Inr vs \<Rightarrow> Inr (v # vs)))"

text \<open>
  The statement shape shared by the six code predicates,
  \<^verbatim>\<open>_df = _df[to_int_series(_df[col], dropna=False) <test>]\<close>. Python evaluates
  \<^verbatim>\<open>to_int_series\<close> first and the right-hand operand of the test (which may raise
  \<^verbatim>\<open>KeyError\<close>) after it.
\<close>

definition code_filter ::
  "(ustring \<Rightarrow> rat option) \<Rightarrow> ('r \<Rightarrow> cell) \<Rightarrow> error + (int option \<Rightarrow> bool) \<Rightarrow> 'r list
     \<Rightarrow> error + 'r list" where
  "code_filter pn col test df =
     (case to_int_series (read_cell pn) (map col df) False of
        Inl e \<Rightarrow> Inl e
      | Inr x \<Rightarrow> (case test of Inl e \<Rightarrow> Inl e | Inr t \<Rightarrow> Inr (boolean_index df (map t x))))"

text \<open>Lines 156 and 157.\<close>

definition year_step ::
  "(ustring \<Rightarrow> rat option) \<Rightarrow> int option \<Rightarrow> 'a row_scheme list \<Rightarrow> error + 'a row_scheme list" where
  "year_step pn sel df =
     (case sel of
        None \<Rightarrow> Inr df
      | Some y \<Rightarrow> code_filter pn year_col (Inr (eq_code y)) df)"

text \<open>Lines 159 to 161: the predicate is skipped when the selection is empty.\<close>

definition selected_codes :: "ustring list \<Rightarrow> int list" where
  "selected_codes names = List.map_filter REGION_MAP_REV names"

definition region_step ::
  "(ustring \<Rightarrow> rat option) \<Rightarrow> ustring list \<Rightarrow> 'a row_scheme list \<Rightarrow> error + 'a row_scheme list" where
  "region_step pn names df =
     (if names \<noteq> [] then code_filter pn region_code (Inr (isin (selected_codes names))) df
      else Inr df)"

text \<open>Lines 163 to 165.\<close>

definition gender_step ::
  "(ustring \<Rightarrow> rat option) \<Rightarrow> ustring list \<Rightarrow> 'a row_scheme list \<Rightarrow> error + 'a row_scheme list" where
  "gender_step pn genders df =
     (if genders \<noteq> [] then
        code_filter pn gender_code
          (case subscript_all (reversed_dict gender_map_items) genders of
             Inl e \<Rightarrow> Inl e
           | Inr codes \<Rightarrow> Inr (isin codes)) df
      else Inr df)"

text \<open>Lines 167 and 168.\<close>

definition month_step ::
  "(ustring \<Rightarrow> rat option) \<Rightarrow> int list \<Rightarrow> 'a row_scheme list \<Rightarrow> error + 'a row_scheme list" where
  "month_step pn months df =
     (if months \<noteq> [] then code_filter pn birth_month (Inr (isin months)) df else Inr df)"

text \<open>Lines 170 to 172.\<close>

definition multiple_step ::
  "(ustring \<Rightarrow> rat option) \<Rightarrow> ustring \<Rightarrow> 'a row_scheme list \<Rightarrow> error + 'a row_scheme list" where
  "multiple_step pn sel df =
     (if sel \<noteq> ALL_label then
        code_filter pn multiple_code
          (case subscript (reversed_dict MULTI_TYPE_MAP_items) sel of
             Inl e \<Rightarrow> Inl e
           | Inr c \<Rightarrow> Inr (eq_code c)) df
      else Inr df)"

text \<open>Lines 174 to 176.\<close>

definition marital_step ::
  "(ustring \<Rightarrow> rat option) \<Rightarrow> ustring \<Rightarrow> 'a row_scheme list \<Rightarrow> error + 'a row_scheme list" where
  "marital_step pn sel df =
     (if sel \<noteq> ALL_label then
        code_filter pn marital_code
          (case subscript (reversed_dict marital_map_items) sel of
             Inl e \<Rightarrow> Inl e
           | Inr c \<Rightarrow> Inr (eq_code c)) df
      else Inr df)"

text \<open>
  Lines 179 and 180: the weight column is replaced by its numeric reading, then
  \<^verbatim>\<open>between(lo, hi, inclusive="both")\<close> selects; \<^verbatim>\<open>NaN\<close> is not between anything.
\<close>

definition between :: "rat \<Rightarrow> rat \<Rightarrow> cell \<Rightarrow> bool" where
  "between lo hi c = (case c of Num w \<Rightarrow> lo \<le> w \<and> w \<le> hi | _ \<Rightarrow> False)"

definition weight_step ::
  "(ustring \<Rightarrow> rat option) \<Rightarrow> rat \<times> rat \<Rightarrow> 'a row_scheme list \<Rightarrow> 'a row_scheme list" where
  "weight_step pn wt df =
     (let df' = map (\<lambda>r. r\<lparr>birth_weight := coerce pn (birth_weight r)\<rparr>) df
      in boolean_index df' (map (between (fst wt) (snd wt)) (map birth_weight df')))"

text \<open>
  Lines 183 and 184: \<^verbatim>\<open>dropna\<close> on the year, region, gender, month and weight columns
  drops the rows with an empty cell in any of them.
\<close>

definition dropna_step :: "bool \<Rightarrow> 'a row_scheme list \<Rightarrow> 'a row_scheme list" where
  "dropna_step excl df =
     (if excl then
        filter (\<lambda>r. year_col r \<noteq> Missing \<and> region_code r \<noteq> Missing \<and> gender_code r \<noteq> Missing
                    \<and> birth_month r \<noteq> Missing \<and> birth_weight r \<noteq> Missing) df
      else df)"

text \<open>
  Lines 187 to 189: when the cohabitation column exists it is replaced by its numeric
  reading and the rows that hold 999 are removed (\<^verbatim>\<open>NaN != 999\<close> is true).
\<close>

definition cohab_step ::
  "(ustring \<Rightarrow> rat option) \<Rightarrow> bool \<Rightarrow> 'a row_scheme list \<Rightarrow> 'a row_scheme list" where
  "cohab_step pn present df =
     (if present then
        (let df' = map (\<lambda>r. r\<lparr>parental_cohab := coerce pn (parental_cohab r)\<rparr>) df
         in boolean_index df' (map (\<lambda>c. c \<noteq> Num 999) (map parental_cohab df')))
      else df)"

text \<open>The whole of lines 154 to 189; the result is the frame \<^verbatim>\<open>_df\<close> after line 189.\<close>

definition filter_df ::
  "(ustring \<Rightarrow> rat option) \<Rightarrow> filter_spec \<Rightarrow> 'a row_scheme frame
     \<Rightarrow> error + 'a row_scheme frame" where
  "filter_df pn sp df =
     and_then (year_step pn (selected_year sp) (rows df)) (\<lambda>d1.
     and_then (region_step pn (selected_regions_name sp) d1) (\<lambda>d2.
     and_then (gender_step pn (selected_genders sp) d2) (\<lambda>d3.
     and_then (month_step pn (selected_months sp) d3) (\<lambda>d4.
     and_then (multiple_step pn (selected_multiple sp) d4) (\<lambda>d5.
     and_then (marital_step pn (selected_marital sp) d5) (\<lambda>d6.
     Inr (df\<lparr>rows :=
            cohab_step pn (has_cohab df)
              (dropna_step (exclude_na sp) (weight_step pn (selected_wt sp) d6))\<rparr>)))))))"

subsection \<open>The summary metrics (lines 222 to 226 and 344 to 346)\<close>

text \<open>\<^verbatim>\<open>Series.mean()\<close>: \<^verbatim>\<open>NaN\<close> (here \<open>None\<close>) on an empty series.\<close>

definition mean :: "rat list \<Rightarrow> rat option" where
  "mean xs = (if xs = [] then None else Some (sum_list xs / of_nat (length xs)))"

definition bool_mean :: "bool list \<Rightarrow> rat option" where
  "bool_mean bs = mean (map (\<lambda>b. if b then 1 else 0) bs)"

text \<open>\<^verbatim>\<open>astype(int)\<close> on a float: the fraction is cut off, towards zero.\<close>

definition trunc :: "rat \<Rightarrow> int" where
  "trunc q = (if 0 \<le> q then \<lfloor>q\<rfloor> else \<lceil>q\<rceil>)"

text \<open>
  \<^verbatim>\<open>(pd.to_numeric(df["..."], errors="coerce").fillna(1).astype(int) > 1).mean() * 100\<close>
\<close>

definition multiple_ratio ::
  "(ustring \<Rightarrow> rat option) \<Rightarrow> 'a row_scheme list \<Rightarrow> rat option" where
  "multiple_ratio pn df =
     map_option (\<lambda>m. m * 100)
       (bool_mean (map (\<lambda>r. trunc (case to_numeric pn (multiple_code r) of
                                      None \<Rightarrow> 1 | Some q \<Rightarrow> q) > 1) df))"

text \<open>
  \<^verbatim>\<open>marital_code = pd.to_numeric(df["..."], errors="coerce")\<close> and
  \<^verbatim>\<open>(marital_code == 2).mean() * 100\<close>; \<^verbatim>\<open>NaN == 2\<close> is false.
\<close>

definition marital_ratio ::
  "(ustring \<Rightarrow> rat option) \<Rightarrow> 'a row_scheme list \<Rightarrow> rat option" where
  "marital_ratio pn df =
     map_option (\<lambda>m. m * 100)
       (bool_mean (map (\<lambda>r. to_numeric pn (marital_code r) = Some 2) df))"

text \<open>
  The cohabitation metric: \<open>None\<close> when the frame has no such column (the dashboard shows
  "no data"), otherwise the mean of the numeric values other than 999.
\<close>

definition cohab_mean ::
  "(ustring \<Rightarrow> rat option) \<Rightarrow> 'a row_scheme frame \<Rightarrow> rat option option" where
  "cohab_mean pn df =
     (if has_cohab df then
        Some (mean (List.map_filter
                      (\<lambda>r. case to_numeric pn (parental_cohab r) of
                             None \<Rightarrow> None
                           | Some q \<Rightarrow> if q = 999 then None else Some q) (rows df)))
      else None)"

text \<open>A reading of strings that accepts none of them, for the worked examples.\<close>

definition parse_nothing :: "ustring \<Rightarrow> rat option" where
  "parse_nothing s = None"

subsection \<open>Notions used to state the properties\<close>

text \<open>
  What \<^verbatim>\<open>to_int_series\<close> makes of one cell when it does not raise, and the condition
  under which a cell does not make it raise.
\<close>

definition int_code :: "(ustring \<Rightarrow> rat option) \<Rightarrow> cell \<Rightarrow> int option" where
  "int_code pn c = map_option floor (to_numeric pn c)"

definition exact_cell :: "(ustring \<Rightarrow> rat option) \<Rightarrow> cell \<Rightarrow> bool" where
  "exact_cell pn c = exact_value (read_cell pn c)"

text \<open>
  A record of the year 2023 with the given region code, birth weight and cohabitation
  duration (a boy born in May, a single birth, in wedlock), and the state of the widgets
  when the dashboard starts with the given region options and weight range: lines 127
  to 151 select "all" in every selectbox, every option of every multiselect, the whole
  weight range, and tick the checkbox.
\<close>

definition birth :: "rat \<Rightarrow> rat \<Rightarrow> rat \<Rightarrow> row" where
  "birth region weight cohab =
     \<lparr>year_col = Num 2023, region_code = Num region, gender_code = Num 1,
      birth_month = Num 5, multiple_code = Num 1, marital_code = Num 1,
      birth_weight = Num weight, parental_cohab = Num cohab\<rparr>"

definition widget_defaults :: "ustring list \<Rightarrow> rat \<times> rat \<Rightarrow> filter_spec" where
  "widget_defaults names wt =
     \<lparr>selected_year = None, selected_regions_name = names,
      selected_genders = map snd gender_map_items, selected_months = [1..12],
      selected_multiple = ALL_label, selected_marital = ALL_label,
      selected_wt = wt, exclude_na = True\<rparr>"

text \<open>
  The row as the filter stores it: line 179 overwrites the weight by its numeric reading
  and line 188 does the same for the cohabitation duration when that column exists. The
  last three statements of the filter keep a row exactly when \<open>passes_closing\<close> holds
  of it.
\<close>

definition numeric_weight :: "(ustring \<Rightarrow> rat option) \<Rightarrow> 'a row_scheme \<Rightarrow> 'a row_scheme" where
  "numeric_weight pn r = r\<lparr>birth_weight := coerce pn (birth_weight r)\<rparr>"

definition numeric_cohab :: "(ustring \<Rightarrow> rat option) \<Rightarrow> bool \<Rightarrow> 'a row_scheme \<Rightarrow> 'a row_scheme" where
  "numeric_cohab pn present r =
     (if present then r\<lparr>parental_cohab := coerce pn (parental_cohab r)\<rparr> else r)"

definition stored_row :: "(ustring \<Rightarrow> rat option) \<Rightarrow> bool \<Rightarrow> 'a row_scheme \<Rightarrow> 'a row_scheme" where
  "stored_row pn present r = numeric_cohab pn present (numeric_weight pn r)"

definition no_missing_core :: "'a row_scheme \<Rightarrow> bool" where
  "no_missing_core r \<longleftrightarrow>
     year_col r \<noteq> Missing \<and> region_code r \<noteq> Missing \<and> gender_code r \<noteq> Missing
     \<and> birth_month r \<noteq> Missing \<and> birth_weight r \<noteq> Missing"

definition passes_closing ::
  "(ustring \<Rightarrow> rat option) \<Rightarrow> filter_spec \<Rightarrow> bool \<Rightarrow> 'a row_scheme \<Rightarrow> bool" where
  "passes_closing pn sp present r \<longleftrightarrow>
     between (fst (selected_wt sp)) (snd (selected_wt sp)) (coerce pn (birth_weight r))
     \<and> (exclude_na sp \<longrightarrow> no_missing_core (numeric_weight pn r))
     \<and> (present \<longrightarrow> to_numeric pn (parental_cohab r) \<noteq> Some 999)"

text \<open>
  Overwriting the region code of a row, and a recoding that gives every cell that is not
  empty the code \<open>q\<close>: used to say that a result does not depend on the region codes.
\<close>

definition recode_region :: "(cell \<Rightarrow> cell) \<Rightarrow> 'a row_scheme \<Rightarrow> 'a row_scheme" where
  "recode_region g r = r\<lparr>region_code := g (region_code r)\<rparr>"

definition relabel :: "rat \<Rightarrow> cell \<Rightarrow> cell" where
  "relabel q c = (case c of Missing \<Rightarrow> Missing | _ \<Rightarrow> Num q)"

section \<open>Properties\<close>

subsection \<open>The integer normalizer\<close>

lemma floor_rat_numeral_div:
  "\<lfloor>numeral a / numeral b :: rat\<rfloor> = numeral a div numeral b"
  by (metis floor_divide_of_int_eq of_int_numeral)

lemma int_code_eq: "int_code pn = (\<lambda>c. map_option floor (to_numeric pn c))"
  by (simp add: fun_eq_iff int_code_def)

lemma present_values:
  "set (List.map_filter (\<lambda>v. v) x) = {y. Some y \<in> set x}"
  by (induction x) (auto simp: List.map_filter_simps split: option.splits)

lemma max_is_infinite_iff:
  "max_is_infinite x \<longleftrightarrow>
     Some PosInf \<in> set x \<or> (Some NegInf \<in> set x \<and> (\<forall>y. Some y \<in> set x \<longrightarrow> y = NegInf))"
proof -
  have "List.map_filter (\<lambda>v. v) x \<noteq> [] \<longleftrightarrow> (\<exists>y. Some y \<in> set x)"
    using present_values [of x] by (metis empty_Collect_eq set_empty)
  then show ?thesis
    by (auto simp: max_is_infinite_def Let_def list_all_iff present_values)
qed

lemma exact_not_infinite:
  assumes "\<forall>v \<in> set x. exact_value v"
  shows "\<not> max_is_infinite x"
proof -
  have "\<not> exact_value (Some PosInf)" "\<not> exact_value (Some NegInf)"
    by (simp_all add: exact_value_def)
  with assms show ?thesis
    by (auto simp: max_is_infinite_iff)
qed

lemma astype_Int64_exact:
  "\<forall>v \<in> set x. exact_value v \<Longrightarrow> astype_Int64 x = Inr (map (map_option int_cast) x)"
  by (simp add: astype_Int64_def exact_not_infinite list_all_iff)

lemma astype_Int64_inexact:
  "\<exists>v \<in> set x. \<not> exact_value v \<Longrightarrow> \<exists>e. astype_Int64 x = Inl e"
  by (auto simp: astype_Int64_def list_all_iff)

lemma read_cell_not_infinite:
  "Some PosInf \<notin> set (map (read_cell pn) s)" "Some NegInf \<notin> set (map (read_cell pn) s)"
  by (induction s) (auto simp: read_cell_def map_option_case split: option.splits)

lemma read_cell_finite: "\<not> max_is_infinite (map (read_cell pn) s)"
  using read_cell_not_infinite [of pn s] by (simp add: max_is_infinite_iff)

lemma int_cast_read_cell: "map_option int_cast (read_cell pn c) = int_code pn c"
  by (simp add: read_cell_def int_code_def option.map_comp comp_def)

lemma to_int_series_keep:
  "to_int_series (read_cell pn) s False =
     (if list_all (exact_cell pn) s then Inr (map (int_code pn) s) else Inl TypeError)"
  by (simp add: to_int_series_def astype_Int64_def read_cell_finite list_all_iff exact_cell_def
      int_cast_read_cell)

lemma to_int_series_drop:
  "to_int_series (read_cell pn) s True =
     (if list_all (exact_cell pn) s then Inr (filter (\<lambda>v. v \<noteq> None) (map (int_code pn) s))
      else Inl TypeError)"
  by (simp add: to_int_series_def astype_Int64_def read_cell_finite list_all_iff exact_cell_def
      int_cast_read_cell comp_def)

text \<open>
  C3, as the code has it. The claim says that a value that parses is truncated and that no
  exception escapes. \<^verbatim>\<open>astype("Int64")\<close> does not truncate. When every value of the
  column that parses as a number is a whole number in the 64-bit range, the normalizer
  raises nothing: each value that parses becomes the integer equal to it and each value
  that does not parse becomes the missing marker (with \<^verbatim>\<open>dropna\<close> the missing entries are
  then removed). When some value parses as a number with a fractional part, or as an
  infinity, the normalizer raises an exception.
\<close>

theorem to_int_series_whole_numbers:
  "((\<forall>v \<in> set s. rd v \<noteq> Some PosInf \<and> rd v \<noteq> Some NegInf \<and>
        (\<forall>q. rd v = Some (Finite q) \<longrightarrow>
           of_int \<lfloor>q\<rfloor> = q \<and> - (2 ^ 63) \<le> \<lfloor>q\<rfloor> \<and> \<lfloor>q\<rfloor> < 2 ^ 63)) \<longrightarrow>
      (\<exists>x. to_int_series rd s False = Inr x \<and>
           list_all2 (\<lambda>v y. case rd v of
                               None \<Rightarrow> y = None
                             | Some (Finite q) \<Rightarrow> (\<exists>k. y = Some k \<and> of_int k = q)
                             | Some _ \<Rightarrow> False) s x \<and>
           to_int_series rd s True = Inr (filter (\<lambda>y. y \<noteq> None) x))) \<and>
   ((\<exists>v \<in> set s. (\<exists>q. rd v = Some (Finite q) \<and> of_int \<lfloor>q\<rfloor> \<noteq> q)
                  \<or> rd v = Some PosInf \<or> rd v = Some NegInf) \<longrightarrow>
      (\<exists>e. to_int_series rd s dropna = Inl e))"
proof (intro conjI impI)
  assume "\<forall>v \<in> set s. rd v \<noteq> Some PosInf \<and> rd v \<noteq> Some NegInf \<and>
        (\<forall>q. rd v = Some (Finite q) \<longrightarrow>
           of_int \<lfloor>q\<rfloor> = q \<and> - (2 ^ 63) \<le> \<lfloor>q\<rfloor> \<and> \<lfloor>q\<rfloor> < 2 ^ 63)"
  then have exact: "\<forall>v \<in> set s. exact_value (rd v)"
    by (auto simp: exact_value_def int64_exact_def split: option.splits number.splits)
  then have cast: "astype_Int64 (map rd s) = Inr (map (map_option int_cast) (map rd s))"
    by (intro astype_Int64_exact) simp
  have each: "case rd v of
                None \<Rightarrow> map_option int_cast (rd v) = None
              | Some (Finite q) \<Rightarrow> (\<exists>k. map_option int_cast (rd v) = Some k \<and> of_int k = q)
              | Some _ \<Rightarrow> False" if "v \<in> set s" for v
    using exact that
    by (auto simp: exact_value_def int64_exact_def split: option.splits number.splits)
  have "list_all2 (\<lambda>v y. case rd v of
                               None \<Rightarrow> y = None
                             | Some (Finite q) \<Rightarrow> (\<exists>k. y = Some k \<and> of_int k = q)
                             | Some _ \<Rightarrow> False) s (map (\<lambda>v. map_option int_cast (rd v)) s)"
    using each by (simp add: list_all2_map2 list_all2_same)
  with cast show "\<exists>x. to_int_series rd s False = Inr x \<and>
           list_all2 (\<lambda>v y. case rd v of
                               None \<Rightarrow> y = None
                             | Some (Finite q) \<Rightarrow> (\<exists>k. y = Some k \<and> of_int k = q)
                             | Some _ \<Rightarrow> False) s x \<and>
           to_int_series rd s True = Inr (filter (\<lambda>y. y \<noteq> None) x)"
    by (simp add: to_int_series_def comp_def)
next
  assume "\<exists>v \<in> set s. (\<exists>q. rd v = Some (Finite q) \<and> of_int \<lfloor>q\<rfloor> \<noteq> q)
                  \<or> rd v = Some PosInf \<or> rd v = Some NegInf"
  then obtain v where v: "v \<in> set s"
    and bad: "(\<exists>q. rd v = Some (Finite q) \<and> of_int \<lfloor>q\<rfloor> \<noteq> q)
                \<or> rd v = Some PosInf \<or> rd v = Some NegInf"
    by blast
  from bad have "\<not> exact_value (rd v)"
    by (auto simp: exact_value_def int64_exact_def)
  with v have "\<exists>v \<in> set (map rd s). \<not> exact_value v"
    by auto
  from astype_Int64_inexact [OF this] show "\<exists>e. to_int_series rd s dropna = Inl e"
    by (auto simp: to_int_series_def)
qed

theorem to_int_series_whole_numbers_witness:
  "to_int_series (read_cell parse_nothing) [Num 11, Text [0x61], Missing, Num (-3)] False
     = Inr [Some 11, None, None, Some (-3)] \<and>
   to_int_series (read_cell parse_nothing) [Num 11, Text [0x61], Missing, Num (-3)] True
     = Inr [Some 11, Some (-3)] \<and>
   to_int_series (read_cell parse_nothing) [Num 11, Num (5 / 2)] True = Inl TypeError \<and>
   to_int_series id [Some (Finite 11), Some PosInf] False = Inl OverflowError"
  using to_int_series_whole_numbers
      [of "[Num 11, Text [0x61], Missing, Num (-3)]" "read_cell parse_nothing" True]
    to_int_series_whole_numbers [of "[Num 11, Num (5 / 2)]" "read_cell parse_nothing" True]
    to_int_series_whole_numbers [of "[Some (Finite 11), Some PosInf]" id False]
  by (simp add: to_int_series_def astype_Int64_def max_is_infinite_def exact_value_def
      int64_exact_def read_cell_def parse_nothing_def floor_rat_numeral_div
      List.map_filter_simps)

text \<open>
  C3 as stated fails: the value 3.5 parses as a number, and the normalizer neither
  returns 3 nor the missing marker; it raises.
\<close>

theorem to_int_series_fraction_raises:
  "to_int_series (read_cell parse_nothing) [Num (7 / 2)] False = Inl TypeError"
  by code_simp

subsection \<open>The ratio metrics\<close>

lemma sum_list_indicator:
  "sum_list (map ((\<lambda>b. if b then 1 else 0) \<circ> P) xs) = (of_nat (length (filter P xs)) :: rat)"
  by (induction xs) simp_all

lemma bool_mean_count:
  "bool_mean (map P xs) =
     (if xs = [] then None else Some (of_nat (length (filter P xs)) / of_nat (length xs)))"
  by (simp add: bool_mean_def mean_def sum_list_indicator)

lemma share_bounds:
  assumes "xs \<noteq> []"
  shows "0 \<le> (of_nat (length (filter P xs)) / of_nat (length xs) * 100 :: rat)"
    and "(of_nat (length (filter P xs)) / of_nat (length xs) * 100 :: rat) \<le> 100"
proof -
  have pos: "(0::rat) < of_nat (length xs)" using assms by simp
  have le: "(of_nat (length (filter P xs)) :: rat) \<le> of_nat (length xs)"
    by simp
  show "0 \<le> (of_nat (length (filter P xs)) / of_nat (length xs) * 100 :: rat)" by simp
  from pos le show "(of_nat (length (filter P xs)) / of_nat (length xs) * 100 :: rat) \<le> 100"
    by (simp add: pos_divide_le_eq)
qed

text \<open>
  C2, as the code has it. On a frame with at least one row both ratio metrics (the share
  of multiple births and the share of births out of wedlock) are numbers between 0 and
  100. On the empty frame neither is 0: the mean of an empty series is \<^verbatim>\<open>NaN\<close>, and so is
  the ratio (no exception is raised).
\<close>

theorem ratio_bounds:
  "(df \<noteq> [] \<longrightarrow>
      (\<exists>p. multiple_ratio pn df = Some p \<and> 0 \<le> p \<and> p \<le> 100) \<and>
      (\<exists>p. marital_ratio pn df = Some p \<and> 0 \<le> p \<and> p \<le> 100)) \<and>
   (df = [] \<longrightarrow> multiple_ratio pn df = None \<and> marital_ratio pn df = None)"
proof (cases "df = []")
  case True
  then show ?thesis
    by (simp add: multiple_ratio_def marital_ratio_def bool_mean_def mean_def)
next
  case False
  then show ?thesis
    using share_bounds [of df]
    by (simp add: multiple_ratio_def marital_ratio_def bool_mean_count)
qed

theorem ratio_bounds_witness:
  "[birth 11 3 5, (birth 21 2 4)\<lparr>multiple_code := Num 2\<rparr>] \<noteq> [] \<and>
   (\<exists>p. multiple_ratio parse_nothing [birth 11 3 5, (birth 21 2 4)\<lparr>multiple_code := Num 2\<rparr>]
          = Some p \<and> 0 \<le> p \<and> p \<le> 100) \<and>
   (\<exists>p. marital_ratio parse_nothing [birth 11 3 5, (birth 21 2 4)\<lparr>multiple_code := Num 2\<rparr>]
          = Some p \<and> 0 \<le> p \<and> p \<le> 100)"
  using ratio_bounds [of "[birth 11 3 5, (birth 21 2 4)\<lparr>multiple_code := Num 2\<rparr>]" parse_nothing]
  by simp

text \<open>C2 as stated fails on the empty frame: the ratios are \<^verbatim>\<open>NaN\<close>, not 0.\<close>

theorem ratio_empty_is_nan:
  "multiple_ratio parse_nothing ([] :: row list) \<noteq> Some 0 \<and>
   marital_ratio parse_nothing ([] :: row list) \<noteq> Some 0"
  by (simp add: multiple_ratio_def marital_ratio_def bool_mean_def mean_def)

text \<open>
  C10. A row whose multiple-birth code is missing or does not parse is read as code 1,
  a single birth: the numerator of the ratio counts only the rows whose code parses to a
  number above 1 (after cutting off its fraction), the denominator counts every row. A
  frame with at least one row in which no multiple-birth code parses has ratio 0.
\<close>

theorem multiple_ratio_missing_counts_as_single:
  "(df \<noteq> [] \<longrightarrow>
      multiple_ratio pn df =
        Some (of_nat (length (filter (\<lambda>r. case to_numeric pn (multiple_code r) of
                                              None \<Rightarrow> False | Some q \<Rightarrow> trunc q > 1) df))
              / of_nat (length df) * 100)) \<and>
   (df \<noteq> [] \<and> (\<forall>r \<in> set df. to_numeric pn (multiple_code r) = None) \<longrightarrow>
      multiple_ratio pn df = Some 0)"
proof -
  have same: "(\<lambda>r. trunc (case to_numeric pn (multiple_code r) of None \<Rightarrow> 1 | Some q \<Rightarrow> q) > 1)
      = (\<lambda>r::'a row_scheme. case to_numeric pn (multiple_code r) of
                               None \<Rightarrow> False | Some q \<Rightarrow> trunc q > 1)"
    by (auto simp: fun_eq_iff trunc_def split: option.splits)
  have none: "(\<forall>r \<in> set df. to_numeric pn (multiple_code r) = None) \<Longrightarrow>
     filter (\<lambda>r. case to_numeric pn (multiple_code r) of
                   None \<Rightarrow> False | Some q \<Rightarrow> trunc q > 1) df = []"
    by (induction df) simp_all
  show ?thesis
    using none by (auto simp add: multiple_ratio_def bool_mean_count same)
qed

theorem multiple_ratio_missing_counts_as_single_witness:
  "multiple_ratio parse_nothing
     [(birth 11 3 5)\<lparr>multiple_code := Missing\<rparr>, (birth 21 2 4)\<lparr>multiple_code := Text [0x3F]\<rparr>]
     = Some 0 \<and>
   multiple_ratio parse_nothing
     [(birth 11 3 5)\<lparr>multiple_code := Missing\<rparr>, (birth 21 2 4)\<lparr>multiple_code := Num 2\<rparr>]
     = Some 50"
  using multiple_ratio_missing_counts_as_single
      [of "[(birth 11 3 5)\<lparr>multiple_code := Missing\<rparr>,
            (birth 21 2 4)\<lparr>multiple_code := Text [0x3F]\<rparr>]" parse_nothing]
    multiple_ratio_missing_counts_as_single
      [of "[(birth 11 3 5)\<lparr>multiple_code := Missing\<rparr>,
            (birth 21 2 4)\<lparr>multiple_code := Num 2\<rparr>]" parse_nothing]
  by (simp add: parse_nothing_def birth_def trunc_def)

subsection \<open>Label decoding\<close>

lemma py_dict_Some:
  "distinct (map fst kvs) \<Longrightarrow> (k, v) \<in> set kvs \<Longrightarrow> py_dict kvs k = Some v"
  by (simp add: py_dict_def rev_map [symmetric])

lemma py_dict_None: "k \<notin> fst ` set kvs \<Longrightarrow> py_dict kvs k = None"
  by (simp add: py_dict_def map_of_eq_None_iff)

lemma py_dict_SomeD: "py_dict kvs k = Some v \<Longrightarrow> (k, v) \<in> set kvs"
  by (auto simp: py_dict_def dest: map_of_SomeD)

lemma dict_items_distinct: "distinct (map fst (dict_items f))"
  by (cases f)
    (simp_all add: REGION_MAP_items_def AGE_MAP_items_def MULTI_ORDER_MAP_items_def
      MULTI_TYPE_MAP_items_def MOTHER_TOTAL_CHILD_MAP_items_def NATIONALITY_MAP_items_def)

text \<open>
  C8. Decoding is a function of the field and the code alone and has a value for every
  integer code and for the missing code: the label the field's dictionary gives the code
  when the code is one of its keys, and the missing label (\<^verbatim>\<open>NaN\<close>) when the code is
  not a key (negative codes and unlisted positive codes included) or is itself missing.
\<close>

theorem decode_total:
  "decode f None = None \<and>
   (\<forall>c l. (c, l) \<in> set (dict_items f) \<longrightarrow> decode f (Some c) = Some l) \<and>
   (\<forall>c. c \<notin> fst ` set (dict_items f) \<longrightarrow> decode f (Some c) = None)"
  by (simp add: decode_def py_dict_Some [OF dict_items_distinct] py_dict_None)

theorem decode_total_witness:
  "decode Region (Some 11) = Some [0xC11C, 0xC6B8, 0xD2B9, 0xBCC4, 0xC2DC] \<and>
   decode MotherAge (Some 99) = Some [0xBBF8, 0xC0C1] \<and>
   decode Region (Some (-5)) = None \<and> decode MultiType (Some 4) = None \<and>
   decode FatherNationality None = None"
  using decode_total [of Region] decode_total [of MotherAge] decode_total [of MultiType]
    decode_total [of FatherNationality]
  by (simp add: REGION_MAP_items_def AGE_MAP_items_def MULTI_TYPE_MAP_items_def)

subsection \<open>The region dictionary and its reversal\<close>

lemma region_labels_distinct: "distinct (map snd REGION_MAP_items)"
  by (simp add: REGION_MAP_items_def)

lemma region_roundtrip_aux:
  assumes "REGION_MAP c = Some l"
  shows "REGION_MAP_REV l = Some c"
proof -
  from assms have "(c, l) \<in> set REGION_MAP_items"
    by (simp add: REGION_MAP_def py_dict_SomeD)
  then have mem: "(l, c) \<in> set (map (\<lambda>(k, v). (v, k)) REGION_MAP_items)"
    by force
  have "fst \<circ> (\<lambda>(k, v). (v, k)) = (snd :: int \<times> ustring \<Rightarrow> ustring)"
    by (auto simp: fun_eq_iff)
  then have "distinct (map fst (map (\<lambda>(k, v). (v, k)) REGION_MAP_items))"
    using region_labels_distinct by simp
  from py_dict_Some [OF this mem] show ?thesis
    by (simp add: REGION_MAP_REV_def reversed_dict_def)
qed

lemma isin_single: "isin [c] v \<longleftrightarrow> v = Some c"
  by (cases v) (auto simp: isin_def)

lemma boolean_index_map: "boolean_index df (map P df) = filter P df"
  by (induction df) (simp_all add: boolean_index_def)

lemma code_filter_eq:
  "code_filter pn col test df =
     (if list_all (\<lambda>r. exact_cell pn (col r)) df then
        (case test of Inl e \<Rightarrow> Inl e
         | Inr t \<Rightarrow> Inr (filter (\<lambda>r. t (int_code pn (col r))) df))
      else Inl TypeError)"
proof -
  have "boolean_index df (map t (map (int_code pn) (map col df)))
          = filter (\<lambda>r. t (int_code pn (col r))) df" for t
    using boolean_index_map [of df "\<lambda>r. t (int_code pn (col r))"] by (simp add: comp_def)
  then show ?thesis
    by (simp add: code_filter_def to_int_series_keep list_all_iff split: sum.splits)
qed

text \<open>
  C9. No two codes of the region dictionary share a label; the reversed dictionary maps
  the label of every code back to that code; and filtering by one region label keeps
  exactly the rows whose region code is the code of that label (provided the region
  column can be read as integers at all).
\<close>

theorem region_roundtrip:
  "(\<forall>c c' l. REGION_MAP c = Some l \<and> REGION_MAP c' = Some l \<longrightarrow> c = c') \<and>
   (\<forall>c l. REGION_MAP c = Some l \<longrightarrow> REGION_MAP_REV l = Some c) \<and>
   (\<forall>c l. REGION_MAP c = Some l \<longrightarrow>
      region_step pn [l] df =
        (if list_all (\<lambda>r. exact_cell pn (region_code r)) df
         then Inr (filter (\<lambda>r. int_code pn (region_code r) = Some c) df)
         else Inl TypeError))"
proof (intro conjI allI impI)
  fix c c' l
  assume "REGION_MAP c = Some l \<and> REGION_MAP c' = Some l"
  then have "REGION_MAP_REV l = Some c" "REGION_MAP_REV l = Some c'"
    by (simp_all add: region_roundtrip_aux)
  then show "c = c'" by simp
next
  fix c l
  assume "REGION_MAP c = Some l"
  then show "REGION_MAP_REV l = Some c" by (rule region_roundtrip_aux)
next
  fix c l
  assume "REGION_MAP c = Some l"
  then have "REGION_MAP_REV l = Some c" by (rule region_roundtrip_aux)
  then have "selected_codes [l] = [c]"
    by (simp add: selected_codes_def List.map_filter_simps)
  then show "region_step pn [l] df =
        (if list_all (\<lambda>r. exact_cell pn (region_code r)) df
         then Inr (filter (\<lambda>r. int_code pn (region_code r) = Some c) df)
         else Inl TypeError)"
    by (simp add: region_step_def code_filter_eq isin_single)
qed

theorem region_roundtrip_witness:
  "REGION_MAP 21 = Some [0xBD80, 0xC0B0, 0xAD11, 0xC5ED, 0xC2DC] \<and>
   REGION_MAP_REV [0xBD80, 0xC0B0, 0xAD11, 0xC5ED, 0xC2DC] = Some 21 \<and>
   region_step parse_nothing [[0xBD80, 0xC0B0, 0xAD11, 0xC5ED, 0xC2DC]]
     [birth 11 3 5, birth 21 2 4, birth 21 4 7] = Inr [birth 21 2 4, birth 21 4 7]"
proof -
  have m: "REGION_MAP 21 = Some [0xBD80, 0xC0B0, 0xAD11, 0xC5ED, 0xC2DC]"
    by (simp add: REGION_MAP_def py_dict_def REGION_MAP_items_def)
  show ?thesis
    using m region_roundtrip [of parse_nothing "[birth 11 3 5, birth 21 2 4, birth 21 4 7]"]
    by (simp add: birth_def exact_cell_def exact_value_def read_cell_def int64_exact_def
        int_code_def)
qed

subsection \<open>The steps of the filter\<close>

lemma and_then_Inr: "and_then m f = Inr y \<longleftrightarrow> (\<exists>x. m = Inr x \<and> f x = Inr y)"
  by (cases m) (simp_all add: and_then_def)

lemma and_then_Inl [simp]: "and_then (Inl e) f = Inl e"
  by (simp add: and_then_def)

lemma and_then_Inr_left [simp]: "and_then (Inr x) f = f x"
  by (simp add: and_then_def)

lemma code_filter_InrD:
  assumes "code_filter pn col test xs = Inr ys"
  shows "\<exists>t. test = Inr t \<and> ys = filter (\<lambda>r. t (int_code pn (col r))) xs
           \<and> (\<forall>r \<in> set xs. exact_cell pn (col r))"
  using assms by (auto simp: code_filter_eq list_all_iff split: if_splits sum.splits)

lemma code_filter_fixed:
  assumes "test = Inr t" and "\<forall>r \<in> set zs. exact_cell pn (col r) \<and> t (int_code pn (col r))"
  shows "code_filter pn col test zs = Inr zs"
  using assms by (simp add: code_filter_eq list_all_iff)

lemma code_filter_absorb:
  assumes "code_filter pn col test xs = Inr ys"
    and "\<forall>z \<in> set zs. \<exists>r \<in> set ys. col z = col r"
  shows "code_filter pn col test zs = Inr zs"
proof -
  from code_filter_InrD [OF assms(1)] obtain t where t: "test = Inr t"
    and ys: "ys = filter (\<lambda>r. t (int_code pn (col r))) xs"
    and ex: "\<forall>r \<in> set xs. exact_cell pn (col r)" by blast
  have "\<forall>z \<in> set zs. exact_cell pn (col z) \<and> t (int_code pn (col z))"
  proof
    fix z assume "z \<in> set zs"
    with assms(2) obtain r where "r \<in> set ys" "col z = col r" by blast
    with ys ex show "exact_cell pn (col z) \<and> t (int_code pn (col z))" by simp
  qed
  with t show ?thesis by (rule code_filter_fixed)
qed

lemma code_filter_filter:
  "code_filter pn col test xs = Inr ys \<Longrightarrow> \<exists>P. ys = filter P xs"
  by (blast dest: code_filter_InrD)

lemma year_step_filter: "year_step pn sel xs = Inr ys \<Longrightarrow> \<exists>P. ys = filter P xs"
  by (cases sel) (auto simp: year_step_def dest: code_filter_filter intro: exI [of _ "\<lambda>_. True"])

lemma region_step_filter: "region_step pn sel xs = Inr ys \<Longrightarrow> \<exists>P. ys = filter P xs"
  by (auto simp: region_step_def dest: code_filter_filter intro: exI [of _ "\<lambda>_. True"]
      split: if_splits)

lemma gender_step_filter: "gender_step pn sel xs = Inr ys \<Longrightarrow> \<exists>P. ys = filter P xs"
  by (auto simp: gender_step_def dest: code_filter_filter intro: exI [of _ "\<lambda>_. True"]
      split: if_splits)

lemma month_step_filter: "month_step pn sel xs = Inr ys \<Longrightarrow> \<exists>P. ys = filter P xs"
  by (auto simp: month_step_def dest: code_filter_filter intro: exI [of _ "\<lambda>_. True"]
      split: if_splits)

lemma multiple_step_filter: "multiple_step pn sel xs = Inr ys \<Longrightarrow> \<exists>P. ys = filter P xs"
  by (auto simp: multiple_step_def dest: code_filter_filter intro: exI [of _ "\<lambda>_. True"]
      split: if_splits)

lemma marital_step_filter: "marital_step pn sel xs = Inr ys \<Longrightarrow> \<exists>P. ys = filter P xs"
  by (auto simp: marital_step_def dest: code_filter_filter intro: exI [of _ "\<lambda>_. True"]
      split: if_splits)

lemma year_step_absorb:
  "year_step pn sel (xs :: 'a row_scheme list) = Inr ys \<Longrightarrow>
   \<forall>z \<in> set (zs :: 'a row_scheme list). \<exists>r \<in> set ys. year_col z = year_col r \<Longrightarrow>
   year_step pn sel zs = Inr zs"
  using code_filter_absorb [of pn year_col _ xs ys zs]
  by (cases sel) (simp_all add: year_step_def)

lemma region_step_absorb:
  "region_step pn sel (xs :: 'a row_scheme list) = Inr ys \<Longrightarrow>
   \<forall>z \<in> set (zs :: 'a row_scheme list). \<exists>r \<in> set ys. region_code z = region_code r \<Longrightarrow>
   region_step pn sel zs = Inr zs"
  using code_filter_absorb [of pn region_code _ xs ys zs]
  by (simp add: region_step_def split: if_splits)

lemma gender_step_absorb:
  "gender_step pn sel (xs :: 'a row_scheme list) = Inr ys \<Longrightarrow>
   \<forall>z \<in> set (zs :: 'a row_scheme list). \<exists>r \<in> set ys. gender_code z = gender_code r \<Longrightarrow>
   gender_step pn sel zs = Inr zs"
  using code_filter_absorb [of pn gender_code _ xs ys zs]
  by (simp add: gender_step_def split: if_splits)

lemma month_step_absorb:
  "month_step pn sel (xs :: 'a row_scheme list) = Inr ys \<Longrightarrow>
   \<forall>z \<in> set (zs :: 'a row_scheme list). \<exists>r \<in> set ys. birth_month z = birth_month r \<Longrightarrow>
   month_step pn sel zs = Inr zs"
  using code_filter_absorb [of pn birth_month _ xs ys zs]
  by (simp add: month_step_def split: if_splits)

lemma multiple_step_absorb:
  "multiple_step pn sel (xs :: 'a row_scheme list) = Inr ys \<Longrightarrow>
   \<forall>z \<in> set (zs :: 'a row_scheme list). \<exists>r \<in> set ys. multiple_code z = multiple_code r \<Longrightarrow>
   multiple_step pn sel zs = Inr zs"
  using code_filter_absorb [of pn multiple_code _ xs ys zs]
  by (simp add: multiple_step_def split: if_splits)

lemma marital_step_absorb:
  "marital_step pn sel (xs :: 'a row_scheme list) = Inr ys \<Longrightarrow>
   \<forall>z \<in> set (zs :: 'a row_scheme list). \<exists>r \<in> set ys. marital_code z = marital_code r \<Longrightarrow>
   marital_step pn sel zs = Inr zs"
  using code_filter_absorb [of pn marital_code _ xs ys zs]
  by (simp add: marital_step_def split: if_splits)

lemma coerce_coerce [simp]: "coerce pn (coerce pn c) = coerce pn c"
  by (cases c) (simp_all add: coerce_def split: option.splits)

lemma coerce_Num [simp]: "coerce pn (Num q) = Num q"
  by (simp add: coerce_def)

lemma to_numeric_coerce [simp]: "to_numeric pn (coerce pn c) = to_numeric pn c"
  by (simp add: coerce_def split: option.splits)

lemma coerce_eq_Num: "coerce pn c = Num q \<longleftrightarrow> to_numeric pn c = Some q"
  by (simp add: coerce_def split: option.splits)

lemma boolean_index_map_map:
  "boolean_index (map f xs) (map (\<lambda>x. P (f x)) xs) = filter P (map f xs)"
  by (induction xs) (simp_all add: boolean_index_def)

lemma numeric_cohab_absent [simp]: "numeric_cohab pn False r = r"
  by (simp add: numeric_cohab_def)

lemma weight_step_eq:
  "weight_step pn wt xs =
     filter (\<lambda>r. between (fst wt) (snd wt) (birth_weight r)) (map (numeric_weight pn) xs)"
proof -
  have "weight_step pn wt xs =
      boolean_index (map (numeric_weight pn) xs)
        (map (\<lambda>x. between (fst wt) (snd wt) (birth_weight (numeric_weight pn x))) xs)"
    by (simp add: weight_step_def Let_def numeric_weight_def [abs_def] comp_def)
  also have "\<dots> = filter (\<lambda>r. between (fst wt) (snd wt) (birth_weight r))
                     (map (numeric_weight pn) xs)"
    by (rule boolean_index_map_map
        [where f = "numeric_weight pn" and P = "\<lambda>r. between (fst wt) (snd wt) (birth_weight r)"])
  finally show ?thesis .
qed

lemma cohab_step_eq:
  "cohab_step pn present xs =
     (if present then filter (\<lambda>r. parental_cohab r \<noteq> Num 999) (map (numeric_cohab pn present) xs)
      else xs)"
proof (cases present)
  case True
  have "cohab_step pn True xs =
      boolean_index (map (numeric_cohab pn True) xs)
        (map (\<lambda>x. parental_cohab (numeric_cohab pn True x) \<noteq> Num 999) xs)"
    by (simp add: cohab_step_def Let_def numeric_cohab_def [abs_def] comp_def)
  also have "\<dots> = filter (\<lambda>r. parental_cohab r \<noteq> Num 999) (map (numeric_cohab pn True) xs)"
    by (rule boolean_index_map_map
        [where f = "numeric_cohab pn True" and P = "\<lambda>r. parental_cohab r \<noteq> Num 999"])
  finally show ?thesis using True by simp
next
  case False
  then show ?thesis by (simp add: cohab_step_def)
qed

lemma dropna_step_eq:
  "dropna_step excl xs = (if excl then filter no_missing_core xs else xs)"
  by (simp add: dropna_step_def no_missing_core_def [abs_def])

lemma numeric_cohab_fields [simp]:
  "year_col (numeric_cohab pn present r) = year_col r"
  "region_code (numeric_cohab pn present r) = region_code r"
  "gender_code (numeric_cohab pn present r) = gender_code r"
  "birth_month (numeric_cohab pn present r) = birth_month r"
  "multiple_code (numeric_cohab pn present r) = multiple_code r"
  "marital_code (numeric_cohab pn present r) = marital_code r"
  "birth_weight (numeric_cohab pn present r) = birth_weight r"
  "parental_cohab (numeric_cohab pn present r) =
     (if present then coerce pn (parental_cohab r) else parental_cohab r)"
  by (simp_all add: numeric_cohab_def)

lemma numeric_weight_fields [simp]:
  "year_col (numeric_weight pn r) = year_col r"
  "region_code (numeric_weight pn r) = region_code r"
  "gender_code (numeric_weight pn r) = gender_code r"
  "birth_month (numeric_weight pn r) = birth_month r"
  "multiple_code (numeric_weight pn r) = multiple_code r"
  "marital_code (numeric_weight pn r) = marital_code r"
  "birth_weight (numeric_weight pn r) = coerce pn (birth_weight r)"
  "parental_cohab (numeric_weight pn r) = parental_cohab r"
  by (simp_all add: numeric_weight_def)

lemma no_missing_core_numeric_cohab [simp]:
  "no_missing_core (numeric_cohab pn present r) = no_missing_core r"
  by (simp add: no_missing_core_def)

lemma closing_steps_eq:
  "cohab_step pn present (dropna_step excl (weight_step pn wt xs)) =
     map (stored_row pn present)
       (filter (\<lambda>r. between (fst wt) (snd wt) (coerce pn (birth_weight r))
                    \<and> (excl \<longrightarrow> no_missing_core (numeric_weight pn r))
                    \<and> (present \<longrightarrow> to_numeric pn (parental_cohab r) \<noteq> Some 999)) xs)"
  by (simp add: cohab_step_eq dropna_step_eq weight_step_eq filter_map comp_def stored_row_def
      coerce_eq_Num conj_ac cong: filter_cong)

lemma filter_df_InrD:
  assumes "filter_df pn sp df = Inr out"
  shows "\<exists>d1 d2 d3 d4 d5 d6.
      year_step pn (selected_year sp) (rows df) = Inr d1 \<and>
      region_step pn (selected_regions_name sp) d1 = Inr d2 \<and>
      gender_step pn (selected_genders sp) d2 = Inr d3 \<and>
      month_step pn (selected_months sp) d3 = Inr d4 \<and>
      multiple_step pn (selected_multiple sp) d4 = Inr d5 \<and>
      marital_step pn (selected_marital sp) d5 = Inr d6 \<and>
      out = df\<lparr>rows := cohab_step pn (has_cohab df)
                (dropna_step (exclude_na sp) (weight_step pn (selected_wt sp) d6))\<rparr>"
  using assms unfolding filter_df_def and_then_Inr by auto

lemma subseq_filter_trans: "subseq ys xs \<Longrightarrow> subseq (filter P ys) xs"
  using subseq_filter_left subseq_order.trans by blast

lemma closing_steps_passes:
  "cohab_step pn present (dropna_step (exclude_na sp) (weight_step pn (selected_wt sp) xs)) =
     map (stored_row pn present) (filter (passes_closing pn sp present) xs)"
  by (simp add: closing_steps_eq passes_closing_def [abs_def])

lemma stored_row_fields [simp]:
  "year_col (stored_row pn present r) = year_col r"
  "region_code (stored_row pn present r) = region_code r"
  "gender_code (stored_row pn present r) = gender_code r"
  "birth_month (stored_row pn present r) = birth_month r"
  "multiple_code (stored_row pn present r) = multiple_code r"
  "marital_code (stored_row pn present r) = marital_code r"
  "birth_weight (stored_row pn present r) = coerce pn (birth_weight r)"
  "parental_cohab (stored_row pn present r) =
     (if present then coerce pn (parental_cohab r) else parental_cohab r)"
  by (simp_all add: stored_row_def)

lemma stored_row_idem [simp]:
  "stored_row pn present (stored_row pn present r) = stored_row pn present r"
  by (simp add: stored_row_def numeric_cohab_def numeric_weight_def)

lemma passes_closing_stored [simp]:
  "passes_closing pn sp present (stored_row pn present r) = passes_closing pn sp present r"
  by (simp add: passes_closing_def no_missing_core_def)

lemma closing_steps_idem:
  "map (stored_row pn present) (filter (passes_closing pn sp present)
     (map (stored_row pn present) (filter (passes_closing pn sp present) xs)))
   = map (stored_row pn present) (filter (passes_closing pn sp present) xs)"
  by (simp add: filter_map comp_def)

subsection \<open>Worked runs of the filter\<close>

lemmas run_defs =
  filter_df_def year_step_def region_step_def gender_step_def month_step_def
  multiple_step_def marital_step_def weight_step_def dropna_step_def cohab_step_def
  code_filter_def to_int_series_def astype_Int64_def max_is_infinite_def read_cell_def
  exact_value_def int64_exact_def
  boolean_index_def isin_def eq_code_def between_def coerce_def widget_defaults_def
  birth_def gender_map_items_def reversed_dict_def py_dict_def ALL_label_def
  selected_codes_def REGION_MAP_REV_def REGION_MAP_items_def List.map_filter_simps

lemma run_seoul:
  "filter_df parse_nothing (widget_defaults [[0xC11C, 0xC6B8, 0xD2B9, 0xBCC4, 0xC2DC]] (0, 10))
     \<lparr>has_cohab = False, rows = [birth 11 3 5, birth 21 4 2]\<rparr>
   = Inr \<lparr>has_cohab = False, rows = [birth 11 3 5]\<rparr>"
  by (simp add: run_defs)

lemma run_cohab:
  "filter_df parse_nothing (widget_defaults [] (0, 10))
     \<lparr>has_cohab = True, rows = [birth 11 3 999, birth 11 3 5]\<rparr>
   = Inr \<lparr>has_cohab = True, rows = [birth 11 3 5]\<rparr>"
  by (simp add: run_defs)

lemma run_weights:
  "filter_df parse_nothing (widget_defaults [] (3, 4))
     \<lparr>has_cohab = False, rows = [birth 11 (5 / 2) 5, birth 11 (31 / 10) 5, birth 11 (21 / 5) 5]\<rparr>
   = Inr \<lparr>has_cohab = False, rows = [birth 11 (31 / 10) 5]\<rparr>"
  by (simp add: run_defs)

lemma run_with_cohab:
  "filter_df parse_nothing ((widget_defaults [] (0, 10))\<lparr>exclude_na := False\<rparr>)
     \<lparr>has_cohab = True,
      rows = [birth 11 3 999, birth 11 3 5, (birth 21 4 2)\<lparr>parental_cohab := Text [0x3F]\<rparr>]\<rparr>
   = Inr \<lparr>has_cohab = True,
          rows = [birth 11 3 5, (birth 21 4 2)\<lparr>parental_cohab := Missing\<rparr>]\<rparr>"
  by (simp add: run_defs parse_nothing_def)

lemma run_unlisted_region:
  "filter_df parse_nothing (widget_defaults [] (0, 10))
     \<lparr>has_cohab = False, rows = [birth 99 3 5, (birth 21 4 2)\<lparr>region_code := Text [0x3F]\<rparr>]\<rparr>
   = Inr \<lparr>has_cohab = False,
          rows = [birth 99 3 5, (birth 21 4 2)\<lparr>region_code := Text [0x3F]\<rparr>]\<rparr>"
  by (simp add: run_defs)

subsection \<open>Properties of the filter pipeline\<close>

lemma filter_df_rows:
  assumes "filter_df pn sp df = Inr out"
  shows "has_cohab out = has_cohab df"
    and "\<exists>d6. subseq d6 (rows df) \<and>
           rows out = map (stored_row pn (has_cohab df))
                        (filter (passes_closing pn sp (has_cohab df)) d6)"
proof -
  from filter_df_InrD [OF assms] obtain d1 d2 d3 d4 d5 d6 where
    s1: "year_step pn (selected_year sp) (rows df) = Inr d1" and
    s2: "region_step pn (selected_regions_name sp) d1 = Inr d2" and
    s3: "gender_step pn (selected_genders sp) d2 = Inr d3" and
    s4: "month_step pn (selected_months sp) d3 = Inr d4" and
    s5: "multiple_step pn (selected_multiple sp) d4 = Inr d5" and
    s6: "marital_step pn (selected_marital sp) d5 = Inr d6" and
    out: "out = df\<lparr>rows := cohab_step pn (has_cohab df)
                (dropna_step (exclude_na sp) (weight_step pn (selected_wt sp) d6))\<rparr>"
    by blast
  show "has_cohab out = has_cohab df" by (simp add: out)
  have "subseq d1 (rows df)"
    using year_step_filter [OF s1] by auto
  then have "subseq d2 (rows df)"
    using region_step_filter [OF s2] by (auto intro: subseq_filter_trans)
  then have "subseq d3 (rows df)"
    using gender_step_filter [OF s3] by (auto intro: subseq_filter_trans)
  then have "subseq d4 (rows df)"
    using month_step_filter [OF s4] by (auto intro: subseq_filter_trans)
  then have "subseq d5 (rows df)"
    using multiple_step_filter [OF s5] by (auto intro: subseq_filter_trans)
  then have "subseq d6 (rows df)"
    using marital_step_filter [OF s6] by (auto intro: subseq_filter_trans)
  moreover have "rows out = map (stored_row pn (has_cohab df))
                        (filter (passes_closing pn sp (has_cohab df)) d6)"
    by (simp add: out closing_steps_passes)
  ultimately show "\<exists>d6. subseq d6 (rows df) \<and>
           rows out = map (stored_row pn (has_cohab df))
                        (filter (passes_closing pn sp (has_cohab df)) d6)"
    by blast
qed

lemma map_filter_cong_set:
  "(\<And>x. x \<in> set xs \<Longrightarrow> f x = g x) \<Longrightarrow> List.map_filter f xs = List.map_filter g xs"
  by (induction xs) (auto simp: List.map_filter_simps split: option.splits)

text \<open>
  C6. The rows of the filtered frame are a subsequence of the rows of the input, each as
  the filter stores it (weight and cohabitation read as numbers): no row is moved or
  duplicated. When those two columns are numeric already, the result is literally a
  subsequence of the input.
\<close>

theorem filter_df_keeps_order:
  "filter_df pn sp df = Inr out \<Longrightarrow>
     has_cohab out = has_cohab df \<and>
     subseq (rows out) (map (stored_row pn (has_cohab df)) (rows df)) \<and>
     ((\<forall>r \<in> set (rows df). stored_row pn (has_cohab df) r = r) \<longrightarrow>
        subseq (rows out) (rows df))"
proof -
  assume run: "filter_df pn sp df = Inr out"
  from filter_df_rows [OF run] obtain d6 where
    hc: "has_cohab out = has_cohab df" and sub: "subseq d6 (rows df)" and
    rows_out: "rows out = map (stored_row pn (has_cohab df))
                            (filter (passes_closing pn sp (has_cohab df)) d6)"
    by blast
  from sub have "subseq (filter (passes_closing pn sp (has_cohab df)) d6) (rows df)"
    by (rule subseq_filter_trans)
  then have order: "subseq (rows out) (map (stored_row pn (has_cohab df)) (rows df))"
    unfolding rows_out by (rule subseq_map)
  moreover have "subseq (rows out) (rows df)"
    if "\<forall>r \<in> set (rows df). stored_row pn (has_cohab df) r = r"
  proof -
    from that have "map (stored_row pn (has_cohab df)) (rows df) = rows df"
      by (simp add: map_idI)
    with order show ?thesis by simp
  qed
  ultimately show ?thesis using hc by blast
qed

theorem filter_df_keeps_order_witness:
  "filter_df parse_nothing
     (widget_defaults [[0xC11C, 0xC6B8, 0xD2B9, 0xBCC4, 0xC2DC]] (0, 10))
     \<lparr>has_cohab = False, rows = [birth 11 3 5, birth 21 4 2]\<rparr>
     = Inr \<lparr>has_cohab = False, rows = [birth 11 3 5]\<rparr> \<and>
   stored_row parse_nothing False (birth 11 3 5) = birth 11 3 5 \<and>
   stored_row parse_nothing False (birth 21 4 2) = birth 21 4 2 \<and>
   subseq [birth 11 3 5] [birth 11 3 5, birth 21 4 2]"
  using filter_df_keeps_order [OF run_seoul] run_seoul
  by (simp add: birth_def stored_row_def numeric_weight_def)

text \<open>
  C5. Filtering the result of a filter run again with the same specification returns
  that result unchanged; a run that raises has no result, and the second run is not
  reached.
\<close>

theorem filter_df_idempotent:
  "(filter_df pn sp df = Inr out \<longrightarrow> filter_df pn sp out = Inr out) \<and>
   and_then (filter_df pn sp df) (filter_df pn sp) = filter_df pn sp df"
proof -
  have main: "filter_df pn sp out = Inr out" if run: "filter_df pn sp df = Inr out" for out
  proof -
    from filter_df_InrD [OF run] obtain d1 d2 d3 d4 d5 d6 where
      s1: "year_step pn (selected_year sp) (rows df) = Inr d1" and
      s2: "region_step pn (selected_regions_name sp) d1 = Inr d2" and
      s3: "gender_step pn (selected_genders sp) d2 = Inr d3" and
      s4: "month_step pn (selected_months sp) d3 = Inr d4" and
      s5: "multiple_step pn (selected_multiple sp) d4 = Inr d5" and
      s6: "marital_step pn (selected_marital sp) d5 = Inr d6" and
      out: "out = df\<lparr>rows := cohab_step pn (has_cohab df)
                  (dropna_step (exclude_na sp) (weight_step pn (selected_wt sp) d6))\<rparr>"
      by blast
    define R where "R = map (stored_row pn (has_cohab df))
                           (filter (passes_closing pn sp (has_cohab df)) d6)"
    have rows_out: "rows out = R" and hc: "has_cohab out = has_cohab df"
      by (simp_all add: out R_def closing_steps_passes)
    have from6: "\<exists>r \<in> set d6. z = stored_row pn (has_cohab df) r" if "z \<in> set R" for z
      using that by (auto simp: R_def)
    have in5: "set d6 \<subseteq> set d5" using marital_step_filter [OF s6] by auto
    then have in4: "set d6 \<subseteq> set d4" using multiple_step_filter [OF s5] by auto
    then have in3: "set d6 \<subseteq> set d3" using month_step_filter [OF s4] by auto
    then have in2: "set d6 \<subseteq> set d2" using gender_step_filter [OF s3] by auto
    then have in1: "set d6 \<subseteq> set d1" using region_step_filter [OF s2] by auto
    have r1: "year_step pn (selected_year sp) R = Inr R"
    proof (rule year_step_absorb [OF s1], rule ballI)
      fix z assume "z \<in> set R"
      from from6 [OF this] obtain r where "r \<in> set d6" "z = stored_row pn (has_cohab df) r"
        by blast
      with in1 show "\<exists>r \<in> set d1. year_col z = year_col r"
        by (intro bexI [of _ r]) auto
    qed
    have r2: "region_step pn (selected_regions_name sp) R = Inr R"
    proof (rule region_step_absorb [OF s2], rule ballI)
      fix z assume "z \<in> set R"
      from from6 [OF this] obtain r where "r \<in> set d6" "z = stored_row pn (has_cohab df) r"
        by blast
      with in2 show "\<exists>r \<in> set d2. region_code z = region_code r"
        by (intro bexI [of _ r]) auto
    qed
    have r3: "gender_step pn (selected_genders sp) R = Inr R"
    proof (rule gender_step_absorb [OF s3], rule ballI)
      fix z assume "z \<in> set R"
      from from6 [OF this] obtain r where "r \<in> set d6" "z = stored_row pn (has_cohab df) r"
        by blast
      with in3 show "\<exists>r \<in> set d3. gender_code z = gender_code r"
        by (intro bexI [of _ r]) auto
    qed
    have r4: "month_step pn (selected_months sp) R = Inr R"
    proof (rule month_step_absorb [OF s4], rule ballI)
      fix z assume "z \<in> set R"
      from from6 [OF this] obtain r where "r \<in> set d6" "z = stored_row pn (has_cohab df) r"
        by blast
      with in4 show "\<exists>r \<in> set d4. birth_month z = birth_month r"
        by (intro bexI [of _ r]) auto
    qed
    have r5: "multiple_step pn (selected_multiple sp) R = Inr R"
    proof (rule multiple_step_absorb [OF s5], rule ballI)
      fix z assume "z \<in> set R"
      from from6 [OF this] obtain r where "r \<in> set d6" "z = stored_row pn (has_cohab df) r"
        by blast
      with in5 show "\<exists>r \<in> set d5. multiple_code z = multiple_code r"
        by (intro bexI [of _ r]) auto
    qed
    have r6: "marital_step pn (selected_marital sp) R = Inr R"
    proof (rule marital_step_absorb [OF s6], rule ballI)
      fix z assume "z \<in> set R"
      from from6 [OF this] obtain r where "r \<in> set d6" "z = stored_row pn (has_cohab df) r"
        by blast
      then show "\<exists>r \<in> set d6. marital_code z = marital_code r"
        by (intro bexI [of _ r]) auto
    qed
    have closing: "cohab_step pn (has_cohab df)
        (dropna_step (exclude_na sp) (weight_step pn (selected_wt sp) R)) = R"
      unfolding closing_steps_passes R_def by (rule closing_steps_idem)
    have "filter_df pn sp out = Inr (out\<lparr>rows := R\<rparr>)"
      by (simp add: filter_df_def rows_out hc r1 r2 r3 r4 r5 r6 closing)
    also have "out\<lparr>rows := R\<rparr> = out"
      using rows_out by simp
    finally show ?thesis .
  qed
  show ?thesis
  proof (cases "filter_df pn sp df")
    case (Inl e)
    then show ?thesis by simp
  next
    case (Inr res)
    with main [OF Inr] show ?thesis by auto
  qed
qed

theorem filter_df_idempotent_witness:
  "filter_df parse_nothing
     (widget_defaults [[0xC11C, 0xC6B8, 0xD2B9, 0xBCC4, 0xC2DC]] (0, 10))
     \<lparr>has_cohab = False, rows = [birth 11 3 5]\<rparr>
   = Inr \<lparr>has_cohab = False, rows = [birth 11 3 5]\<rparr>"
  using filter_df_idempotent
    [of parse_nothing "widget_defaults [[0xC11C, 0xC6B8, 0xD2B9, 0xBCC4, 0xC2DC]] (0, 10)"
        "\<lparr>has_cohab = False, rows = [birth 11 3 5, birth 21 4 2]\<rparr>"
        "\<lparr>has_cohab = False, rows = [birth 11 3 5]\<rparr>"]
    run_seoul
  by simp

text \<open>
  C4. Whatever the filter specification (the exclude-missing toggle included), when the
  cohabitation column is present the filter keeps exactly the rows that the same filter
  keeps on the frame without that column, except those whose cohabitation duration reads
  as 999. So no row of the filtered frame holds 999 in that column, and the mean shown by
  the dashboard is the plain mean of the numeric values of the column. Of two records with
  the durations 999 and 5 the filter keeps the one with 5, and the mean is 5, computed on
  the filtered frame or on the unfiltered one.
\<close>

theorem cohab_sentinel_excluded:
  "(filter_df pn sp df = Inr out \<and> has_cohab df \<longrightarrow>
      (\<exists>out0. filter_df pn sp (df\<lparr>has_cohab := False\<rparr>) = Inr out0 \<and>
         rows out = map (\<lambda>r. r\<lparr>parental_cohab := coerce pn (parental_cohab r)\<rparr>)
                      (filter (\<lambda>r. to_numeric pn (parental_cohab r) \<noteq> Some 999)
                         (rows out0))) \<and>
      (\<forall>r \<in> set (rows out).
         parental_cohab r \<noteq> Num 999 \<and> to_numeric pn (parental_cohab r) \<noteq> Some 999) \<and>
      cohab_mean pn out =
        Some (mean (List.map_filter (\<lambda>r. to_numeric pn (parental_cohab r)) (rows out)))) \<and>
   filter_df parse_nothing (widget_defaults [] (0, 10))
     \<lparr>has_cohab = True, rows = [birth 11 3 999, birth 11 3 5]\<rparr>
     = Inr \<lparr>has_cohab = True, rows = [birth 11 3 5]\<rparr> \<and>
   cohab_mean parse_nothing \<lparr>has_cohab = True, rows = [birth 11 3 5]\<rparr> = Some (Some 5) \<and>
   cohab_mean parse_nothing \<lparr>has_cohab = True, rows = [birth 11 3 999, birth 11 3 5]\<rparr>
     = Some (Some 5)"
proof (intro conjI impI)
  assume "filter_df pn sp df = Inr out \<and> has_cohab df"
  then have run: "filter_df pn sp df = Inr out" and present: "has_cohab df" by simp_all
  from filter_df_InrD [OF run] obtain d1 d2 d3 d4 d5 d6 where
    s1: "year_step pn (selected_year sp) (rows df) = Inr d1" and
    s2: "region_step pn (selected_regions_name sp) d1 = Inr d2" and
    s3: "gender_step pn (selected_genders sp) d2 = Inr d3" and
    s4: "month_step pn (selected_months sp) d3 = Inr d4" and
    s5: "multiple_step pn (selected_multiple sp) d4 = Inr d5" and
    s6: "marital_step pn (selected_marital sp) d5 = Inr d6" and
    out: "out = df\<lparr>rows := cohab_step pn (has_cohab df)
                (dropna_step (exclude_na sp) (weight_step pn (selected_wt sp) d6))\<rparr>"
    by blast
  define X where "X = dropna_step (exclude_na sp) (weight_step pn (selected_wt sp) d6)"
  have without: "filter_df pn sp (df\<lparr>has_cohab := False\<rparr>)
      = Inr (df\<lparr>has_cohab := False, rows := X\<rparr>)"
    by (simp add: filter_df_def s1 s2 s3 s4 s5 s6 cohab_step_def X_def)
  have "rows out = filter (\<lambda>r. parental_cohab r \<noteq> Num 999) (map (numeric_cohab pn True) X)"
    using present by (simp add: out X_def cohab_step_eq)
  also have "\<dots> = map (numeric_cohab pn True)
                     (filter (\<lambda>r. to_numeric pn (parental_cohab r) \<noteq> Some 999) X)"
    by (simp add: filter_map comp_def coerce_eq_Num)
  also have "numeric_cohab pn True
      = (\<lambda>r::'a row_scheme. r\<lparr>parental_cohab := coerce pn (parental_cohab r)\<rparr>)"
    by (simp add: fun_eq_iff numeric_cohab_def)
  finally have rows_out: "rows out = map (\<lambda>r. r\<lparr>parental_cohab := coerce pn (parental_cohab r)\<rparr>)
                      (filter (\<lambda>r. to_numeric pn (parental_cohab r) \<noteq> Some 999) X)" .
  with without show "\<exists>out0. filter_df pn sp (df\<lparr>has_cohab := False\<rparr>) = Inr out0 \<and>
         rows out = map (\<lambda>r. r\<lparr>parental_cohab := coerce pn (parental_cohab r)\<rparr>)
                      (filter (\<lambda>r. to_numeric pn (parental_cohab r) \<noteq> Some 999)
                         (rows out0))"
    by simp
  have each: "parental_cohab r \<noteq> Num 999 \<and> to_numeric pn (parental_cohab r) \<noteq> Some 999"
    if "r \<in> set (rows out)" for r
    using that unfolding rows_out by (auto simp: coerce_eq_Num)
  then show "\<forall>r \<in> set (rows out).
         parental_cohab r \<noteq> Num 999 \<and> to_numeric pn (parental_cohab r) \<noteq> Some 999"
    by blast
  have "List.map_filter (\<lambda>r. case to_numeric pn (parental_cohab r) of
                             None \<Rightarrow> None
                           | Some q \<Rightarrow> if q = 999 then None else Some q) (rows out)
      = List.map_filter (\<lambda>r. to_numeric pn (parental_cohab r)) (rows out)"
    by (rule map_filter_cong_set) (use each in \<open>auto split: option.splits\<close>)
  moreover have "has_cohab out" using present by (simp add: out)
  ultimately show "cohab_mean pn out =
        Some (mean (List.map_filter (\<lambda>r. to_numeric pn (parental_cohab r)) (rows out)))"
    by (simp add: cohab_mean_def)
next
  show "filter_df parse_nothing (widget_defaults [] (0, 10))
     \<lparr>has_cohab = True, rows = [birth 11 3 999, birth 11 3 5]\<rparr>
     = Inr \<lparr>has_cohab = True, rows = [birth 11 3 5]\<rparr>"
    by (rule run_cohab)
next
  show "cohab_mean parse_nothing \<lparr>has_cohab = True, rows = [birth 11 3 5]\<rparr> = Some (Some 5)"
    by (simp add: cohab_mean_def mean_def birth_def List.map_filter_simps)
next
  show "cohab_mean parse_nothing \<lparr>has_cohab = True, rows = [birth 11 3 999, birth 11 3 5]\<rparr>
     = Some (Some 5)"
    by (simp add: cohab_mean_def mean_def birth_def List.map_filter_simps)
qed

theorem cohab_sentinel_excluded_witness:
  "filter_df parse_nothing ((widget_defaults [] (0, 10))\<lparr>exclude_na := False\<rparr>)
     \<lparr>has_cohab = True,
      rows = [birth 11 3 999, birth 11 3 5, (birth 21 4 2)\<lparr>parental_cohab := Text [0x3F]\<rparr>]\<rparr>
   = Inr \<lparr>has_cohab = True,
          rows = [birth 11 3 5, (birth 21 4 2)\<lparr>parental_cohab := Missing\<rparr>]\<rparr> \<and>
   cohab_mean parse_nothing
     \<lparr>has_cohab = True,
      rows = [birth 11 3 5, (birth 21 4 2)\<lparr>parental_cohab := Missing\<rparr>]\<rparr> = Some (Some 5) \<and>
   filter_df parse_nothing (widget_defaults [] (0, 10))
     \<lparr>has_cohab = True, rows = [birth 11 3 999, birth 11 3 5]\<rparr>
     = Inr \<lparr>has_cohab = True, rows = [birth 11 3 5]\<rparr> \<and>
   cohab_mean parse_nothing \<lparr>has_cohab = True, rows = [birth 11 3 5]\<rparr> = Some (Some 5)"
proof -
  note t = cohab_sentinel_excluded
    [where pn = parse_nothing and sp = "(widget_defaults [] (0, 10))\<lparr>exclude_na := False\<rparr>"
       and df = "\<lparr>has_cohab = True,
                  rows = [birth 11 3 999, birth 11 3 5,
                          (birth 21 4 2)\<lparr>parental_cohab := Text [0x3F]\<rparr>]\<rparr>"
       and out = "\<lparr>has_cohab = True,
                   rows = [birth 11 3 5, (birth 21 4 2)\<lparr>parental_cohab := Missing\<rparr>]\<rparr>"]
  from t run_with_cohab show ?thesis
    by (simp add: birth_def mean_def List.map_filter_simps parse_nothing_def)
qed

text \<open>
  C7. The weight predicate keeps exactly the rows whose birth weight reads as a number
  \<open>w\<close> with \<open>lo \<le> w \<le> hi\<close>, both ends included, and drops the rows whose weight is
  missing or does not parse; every row of a filtered frame has its weight in the selected
  range.
\<close>

theorem weight_range_inclusive:
  "weight_step pn (lo, hi) df =
     map (\<lambda>r. r\<lparr>birth_weight := coerce pn (birth_weight r)\<rparr>)
       (filter (\<lambda>r. case to_numeric pn (birth_weight r) of
                      None \<Rightarrow> False | Some w \<Rightarrow> lo \<le> w \<and> w \<le> hi) df) \<and>
   (filter_df pn sp fr = Inr out \<longrightarrow>
      (\<forall>r \<in> set (rows out).
         between (fst (selected_wt sp)) (snd (selected_wt sp)) (birth_weight r)))"
proof (intro conjI impI ballI)
  have "(\<lambda>r. between lo hi (coerce pn (birth_weight r)))
      = (\<lambda>r::'a row_scheme. case to_numeric pn (birth_weight r) of
                      None \<Rightarrow> False | Some w \<Rightarrow> lo \<le> w \<and> w \<le> hi)"
    by (auto simp: fun_eq_iff coerce_def between_def split: option.splits)
  then show "weight_step pn (lo, hi) df =
     map (\<lambda>r. r\<lparr>birth_weight := coerce pn (birth_weight r)\<rparr>)
       (filter (\<lambda>r. case to_numeric pn (birth_weight r) of
                      None \<Rightarrow> False | Some w \<Rightarrow> lo \<le> w \<and> w \<le> hi) df)"
    by (simp add: weight_step_eq filter_map comp_def numeric_weight_def [abs_def])
next
  fix r
  assume run: "filter_df pn sp fr = Inr out" and r: "r \<in> set (rows out)"
  from filter_df_rows(2) [OF run] r obtain r0 where
    "passes_closing pn sp (has_cohab fr) r0" "r = stored_row pn (has_cohab fr) r0"
    by auto
  then show "between (fst (selected_wt sp)) (snd (selected_wt sp)) (birth_weight r)"
    by (simp add: passes_closing_def)
qed

theorem weight_range_inclusive_witness:
  "weight_step parse_nothing (3, 4)
     [birth 11 (5 / 2) 5, birth 11 (31 / 10) 5, birth 11 (21 / 5) 5, birth 11 3 5,
      birth 11 4 5, (birth 11 3 5)\<lparr>birth_weight := Missing\<rparr>,
      (birth 11 3 5)\<lparr>birth_weight := Text [0x3F]\<rparr>]
     = [birth 11 (31 / 10) 5, birth 11 3 5, birth 11 4 5] \<and>
   filter_df parse_nothing (widget_defaults [] (3, 4))
     \<lparr>has_cohab = False, rows = [birth 11 (5 / 2) 5, birth 11 (31 / 10) 5, birth 11 (21 / 5) 5]\<rparr>
     = Inr \<lparr>has_cohab = False, rows = [birth 11 (31 / 10) 5]\<rparr> \<and>
   between 3 4 (birth_weight (birth 11 (31 / 10) 5))"
proof -
  note w = weight_range_inclusive
    [where pn = parse_nothing and lo = 3 and hi = 4
       and df = "[birth 11 (5 / 2) 5, birth 11 (31 / 10) 5, birth 11 (21 / 5) 5, birth 11 3 5,
                  birth 11 4 5, (birth 11 3 5)\<lparr>birth_weight := Missing\<rparr>,
                  (birth 11 3 5)\<lparr>birth_weight := Text [0x3F]\<rparr>]"
       and sp = "widget_defaults [] (3, 4)"
       and fr = "\<lparr>has_cohab = False,
                  rows = [birth 11 (5 / 2) 5, birth 11 (31 / 10) 5, birth 11 (21 / 5) 5]\<rparr>"
       and out = "\<lparr>has_cohab = False, rows = [birth 11 (31 / 10) 5]\<rparr>"]
  from w run_weights show ?thesis
    by (simp add: birth_def coerce_def parse_nothing_def widget_defaults_def)
qed

lemma recode_region_fields [simp]:
  "year_col (recode_region g r) = year_col r"
  "region_code (recode_region g r) = g (region_code r)"
  "gender_code (recode_region g r) = gender_code r"
  "birth_month (recode_region g r) = birth_month r"
  "multiple_code (recode_region g r) = multiple_code r"
  "marital_code (recode_region g r) = marital_code r"
  "birth_weight (recode_region g r) = birth_weight r"
  "parental_cohab (recode_region g r) = parental_cohab r"
  by (simp_all add: recode_region_def)

lemma and_then_commute:
  assumes "m' = map_sum id f m" and "\<And>d. k' (f d) = map_sum id F (k d)"
  shows "and_then m' k' = map_sum id F (and_then m k)"
  using assms by (cases m) simp_all

lemma code_filter_recode:
  assumes "\<And>r. col (u r) = col r"
  shows "code_filter pn col test (map u xs) = map_sum id (map u) (code_filter pn col test xs)"
  by (simp add: code_filter_eq list_all_iff assms filter_map comp_def split: sum.splits)

lemma year_step_recode:
  "year_step pn sel (map (recode_region g) xs)
     = map_sum id (map (recode_region g)) (year_step pn sel xs)"
  by (cases sel) (simp_all add: year_step_def code_filter_recode)

lemma gender_step_recode:
  "gender_step pn sel (map (recode_region g) xs)
     = map_sum id (map (recode_region g)) (gender_step pn sel xs)"
  by (simp add: gender_step_def code_filter_recode)

lemma month_step_recode:
  "month_step pn sel (map (recode_region g) xs)
     = map_sum id (map (recode_region g)) (month_step pn sel xs)"
  by (simp add: month_step_def code_filter_recode)

lemma multiple_step_recode:
  "multiple_step pn sel (map (recode_region g) xs)
     = map_sum id (map (recode_region g)) (multiple_step pn sel xs)"
  by (simp add: multiple_step_def code_filter_recode)

lemma marital_step_recode:
  "marital_step pn sel (map (recode_region g) xs)
     = map_sum id (map (recode_region g)) (marital_step pn sel xs)"
  by (simp add: marital_step_def code_filter_recode)

lemma stored_row_recode:
  "stored_row pn present (recode_region g r) = recode_region g (stored_row pn present r)"
  by (simp add: stored_row_def numeric_cohab_def numeric_weight_def recode_region_def)

lemma passes_closing_recode:
  assumes "exclude_na sp \<longrightarrow> (\<forall>c. (g c = Missing) = (c = Missing))"
  shows "passes_closing pn sp present (recode_region g r) = passes_closing pn sp present r"
  using assms by (auto simp: passes_closing_def no_missing_core_def)

lemma closing_steps_recode:
  fixes sp :: filter_spec
  assumes "exclude_na sp \<longrightarrow> (\<forall>c. (g c = Missing) = (c = Missing))"
  shows "cohab_step pn present
           (dropna_step (exclude_na sp) (weight_step pn (selected_wt sp) (map (recode_region g) xs)))
       = map (recode_region g)
           (cohab_step pn present
              (dropna_step (exclude_na sp) (weight_step pn (selected_wt sp) xs)))"
  by (simp add: closing_steps_passes filter_map comp_def passes_closing_recode [OF assms]
      stored_row_recode)

text \<open>
  C1, as the code has it. The guard at line 159 skips the region predicate when the
  selection is empty, so an empty selection excludes no row on this dimension. For every
  frame the rows kept do not depend on their region codes: overwriting the region codes
  (leaving empty cells empty when the exclude-missing toggle is on, since that rule looks
  at the region column) overwrites them in the result and changes nothing else, so rows
  with an unlisted or unreadable region code are kept as well. When the labels of some
  selection cover the region code of every row, the result is that of this selection.
\<close>

theorem empty_regions_no_restriction:
  "selected_regions_name sp = [] \<Longrightarrow>
     ((exclude_na sp \<longrightarrow> (\<forall>c. (g c = Missing) = (c = Missing))) \<longrightarrow>
        filter_df pn sp (df\<lparr>rows := map (recode_region g) (rows df)\<rparr>)
          = map_sum id (\<lambda>out. out\<lparr>rows := map (recode_region g) (rows out)\<rparr>)
              (filter_df pn sp df)) \<and>
     ((\<forall>r \<in> set (rows df). exact_cell pn (region_code r)
          \<and> isin (selected_codes names) (int_code pn (region_code r))) \<longrightarrow>
        filter_df pn sp df = filter_df pn (sp\<lparr>selected_regions_name := names\<rparr>) df)"
proof (intro conjI impI)
  assume empty: "selected_regions_name sp = []"
  {
    assume keep: "exclude_na sp \<longrightarrow> (\<forall>c. (g c = Missing) = (c = Missing))"
    have region: "region_step pn [] (map (recode_region g) d)
        = map_sum id (map (recode_region g)) (region_step pn [] d)" for d :: "'a row_scheme list"
      by (simp add: region_step_def)
    show "filter_df pn sp (df\<lparr>rows := map (recode_region g) (rows df)\<rparr>)
          = map_sum id (\<lambda>out. out\<lparr>rows := map (recode_region g) (rows out)\<rparr>)
              (filter_df pn sp df)"
      unfolding filter_df_def empty
      apply simp
      apply (rule and_then_commute [where f = "map (recode_region g)"])
       apply (rule year_step_recode)
      apply (rule and_then_commute [where f = "map (recode_region g)"])
       apply (rule region)
      apply (rule and_then_commute [where f = "map (recode_region g)"])
       apply (rule gender_step_recode)
      apply (rule and_then_commute [where f = "map (recode_region g)"])
       apply (rule month_step_recode)
      apply (rule and_then_commute [where f = "map (recode_region g)"])
       apply (rule multiple_step_recode)
      apply (rule and_then_commute [where f = "map (recode_region g)"])
       apply (rule marital_step_recode)
      apply (simp add: closing_steps_recode [OF keep])
      done
  }
  {
    assume covered: "\<forall>r \<in> set (rows df). exact_cell pn (region_code r)
          \<and> isin (selected_codes names) (int_code pn (region_code r))"
    show "filter_df pn sp df = filter_df pn (sp\<lparr>selected_regions_name := names\<rparr>) df"
    proof (cases "year_step pn (selected_year sp) (rows df)")
      case (Inl e)
      then show ?thesis by (simp add: filter_df_def)
    next
      case (Inr d1)
      from year_step_filter [OF Inr] have "set d1 \<subseteq> set (rows df)" by auto
      with covered have "\<forall>r \<in> set d1. exact_cell pn (region_code r)
          \<and> isin (selected_codes names) (int_code pn (region_code r))" by blast
      then have "code_filter pn region_code (Inr (isin (selected_codes names))) d1 = Inr d1"
        by (rule code_filter_fixed [OF refl])
      then have "region_step pn names d1 = region_step pn [] d1"
        by (simp add: region_step_def)
      with Inr empty show ?thesis by (simp add: filter_df_def)
    qed
  }
qed

theorem empty_regions_no_restriction_witness:
  "filter_df parse_nothing (widget_defaults [] (0, 10))
     \<lparr>has_cohab = False, rows = [birth 99 3 5, (birth 21 4 2)\<lparr>region_code := Text [0x3F]\<rparr>]\<rparr>
   = Inr \<lparr>has_cohab = False,
          rows = [birth 99 3 5, (birth 21 4 2)\<lparr>region_code := Text [0x3F]\<rparr>]\<rparr> \<and>
   filter_df parse_nothing (widget_defaults [] (0, 10))
     \<lparr>has_cohab = False, rows = [birth 11 3 5, birth 11 4 2]\<rparr>
   = Inr \<lparr>has_cohab = False, rows = [birth 11 3 5, birth 11 4 2]\<rparr> \<and>
   filter_df parse_nothing (widget_defaults [] (0, 10))
     \<lparr>has_cohab = False, rows = [birth 11 3 5, birth 21 4 2]\<rparr>
   = filter_df parse_nothing
       (widget_defaults [[0xC11C, 0xC6B8, 0xD2B9, 0xBCC4, 0xC2DC],
                         [0xBD80, 0xC0B0, 0xAD11, 0xC5ED, 0xC2DC]] (0, 10))
       \<lparr>has_cohab = False, rows = [birth 11 3 5, birth 21 4 2]\<rparr>"
proof -
  note t1 = empty_regions_no_restriction
    [where sp = "widget_defaults [] (0, 10)" and g = "relabel 11" and pn = parse_nothing
       and df = "\<lparr>has_cohab = False,
                  rows = [birth 99 3 5, (birth 21 4 2)\<lparr>region_code := Text [0x3F]\<rparr>]\<rparr>"
       and names = "[]"]
  note t2 = empty_regions_no_restriction
    [where sp = "widget_defaults [] (0, 10)" and g = "relabel 11" and pn = parse_nothing
       and df = "\<lparr>has_cohab = False, rows = [birth 11 3 5, birth 21 4 2]\<rparr>"
       and names = "[[0xC11C, 0xC6B8, 0xD2B9, 0xBCC4, 0xC2DC],
                     [0xBD80, 0xC0B0, 0xAD11, 0xC5ED, 0xC2DC]]"]
  have g: "\<forall>c. (relabel 11 c = Missing) = (c = Missing)"
    by (simp add: relabel_def split: cell.splits)
  from t1 g run_unlisted_region have first:
    "filter_df parse_nothing (widget_defaults [] (0, 10))
       \<lparr>has_cohab = False, rows = [birth 11 3 5, birth 11 4 2]\<rparr>
     = Inr \<lparr>has_cohab = False, rows = [birth 11 3 5, birth 11 4 2]\<rparr>"
    by (simp add: widget_defaults_def recode_region_def relabel_def birth_def)
  from t2 have second:
    "filter_df parse_nothing (widget_defaults [] (0, 10))
       \<lparr>has_cohab = False, rows = [birth 11 3 5, birth 21 4 2]\<rparr>
     = filter_df parse_nothing
         (widget_defaults [[0xC11C, 0xC6B8, 0xD2B9, 0xBCC4, 0xC2DC],
                           [0xBD80, 0xC0B0, 0xAD11, 0xC5ED, 0xC2DC]] (0, 10))
         \<lparr>has_cohab = False, rows = [birth 11 3 5, birth 21 4 2]\<rparr>"
    by (simp add: widget_defaults_def birth_def exact_cell_def exact_value_def read_cell_def
        int64_exact_def int_code_def isin_def selected_codes_def REGION_MAP_REV_def
        reversed_dict_def py_dict_def REGION_MAP_items_def List.map_filter_simps)
  from first second run_unlisted_region show ?thesis by simp
qed

text \<open>
  C1 as stated fails: with every widget at its default and the region selection
  emptied, a frame of one record is returned whole, not emptied.
\<close>

theorem empty_regions_keeps_rows:
  "filter_df parse_nothing (widget_defaults [] (0, 10))
     \<lparr>has_cohab = False, rows = [birth 11 3 5]\<rparr>
   = Inr \<lparr>has_cohab = False, rows = [birth 11 3 5]\<rparr>"
  by (simp add: run_defs)

end
